theory Spec2Isabelle
  imports Main "HOL-Library.Word" "HOL-Library.AList"
begin

unbundle bit_operations_syntax

section \<open>The product-id plugin of subscription-manager (product-id.c)\<close>

text \<open>
  The development follows \<^verbatim>\<open>src/dnf-plugins/product-id/product-id.c\<close>. The header
  \<^verbatim>\<open>product-id.h\<close> is not part of the sources at hand, so the macros it defines are
  parameters of the model, collected in one record. C strings and byte buffers are
  \<^typ>\<open>string\<close> (a list of 8-bit characters), the NUL byte is \<^term>\<open>CHR 0x00\<close>,
  C \<^verbatim>\<open>int\<close> values that stay small are \<^typ>\<open>int\<close>.
\<close>

record macros =
  CHUNK :: int
  MAX_BUFF :: int
  REDHAT_PRODUCT_OID :: string
  PRODUCT_CERT_DIR :: string
  PRODUCTDB_DIR :: string
  PRODUCTDB_FILE :: string

text \<open>GLib's \<^verbatim>\<open>TRUE\<close> and \<^verbatim>\<open>FALSE\<close>.\<close>

definition TRUE :: int where
  "TRUE = 1"

definition FALSE :: int where
  "FALSE = 0"

datatype level = Debug | Info | Warn | Error

type_synonym log = "(level \<times> string) list"

subsection \<open>The zlib stream that \<^verbatim>\<open>decompress\<close> reads\<close>

text \<open>
  zlib is outside the repository; the model keeps what its \<^verbatim>\<open>gzread\<close>, \<^verbatim>\<open>gzeof\<close> and
  \<^verbatim>\<open>gzerror\<close> do. A stream has the uncompressed bytes it still delivers and the zlib
  error number it meets once they are used up: 0 (\<^verbatim>\<open>Z_OK\<close>) when the gzip stream is
  complete, \<^verbatim>\<open>Z_BUF_ERROR\<close> when the input file ends in the middle of a gzip stream,
  another number when the data are corrupt.
\<close>

definition Z_BUF_ERROR :: int where
  "Z_BUF_ERROR = - 5"

definition Z_STREAM_ERROR :: int where
  "Z_STREAM_ERROR = - 2"

text \<open>The errors on which \<^verbatim>\<open>gzread\<close> gives up: all but \<^verbatim>\<open>Z_OK\<close> and \<^verbatim>\<open>Z_BUF_ERROR\<close>.\<close>

definition gz_fatal :: "int \<Rightarrow> bool" where
  "gz_fatal e = (e \<noteq> 0 \<and> e \<noteq> Z_BUF_ERROR)"

record gzFile =
  gz_pending :: string
  gz_fault :: int
  gz_err :: int
  gz_past :: bool

text \<open>The stream as \<^verbatim>\<open>gzopen\<close> returns it.\<close>

definition gz_stream :: "string \<Rightarrow> int \<Rightarrow> gzFile" where
  "gz_stream bytes fault =
     \<lparr>gz_pending = bytes, gz_fault = fault, gz_err = 0, gz_past = False\<rparr>"

text \<open>
  \<^verbatim>\<open>gzread(file, buf, len)\<close> copies the bytes it gets to the front of \<open>buf\<close>; the result
  is its return value, \<open>buf\<close> afterwards, and the stream afterwards. A call that gets
  \<open>len\<close> bytes returns \<open>len\<close>. A call that runs out of bytes before that meets what the
  stream ends with. At the end of the input, of a complete gzip stream or of one that
  is cut off, it returns the number of bytes it copied and sets the end-of-file
  indicator, and \<^verbatim>\<open>gzerror\<close> gives \<^verbatim>\<open>Z_OK\<close> or \<^verbatim>\<open>Z_BUF_ERROR\<close>. On any other error the
  call returns -1, also when it has copied bytes before it met the error, and every
  later call returns -1. A length that does not fit an \<^verbatim>\<open>int\<close> is an error of its own.
\<close>

definition gzread :: "gzFile \<Rightarrow> string \<Rightarrow> int \<Rightarrow> int \<times> string \<times> gzFile" where
  "gzread file buf len =
     (if gz_fatal (gz_err file) then (- 1, buf, file)
      else if len < 0 then (- 1, buf, file\<lparr>gz_err := Z_STREAM_ERROR\<rparr>)
      else
        (let got = take (nat len) (gz_pending file);
             rest = drop (nat len) (gz_pending file);
             buf1 = got @ drop (length got) buf
         in if length got < nat len then
              (if gz_fatal (gz_fault file) then
                 (- 1, buf1, file\<lparr>gz_pending := rest, gz_err := gz_fault file\<rparr>)
               else
                 (int (length got), buf1,
                  file\<lparr>gz_pending := rest, gz_err := gz_fault file, gz_past := True\<rparr>))
            else (int (length got), buf1, file\<lparr>gz_pending := rest\<rparr>)))"

definition gzeof :: "gzFile \<Rightarrow> bool" where
  "gzeof file = gz_past file"

definition gzerror :: "gzFile \<Rightarrow> int" where
  "gzerror file = gz_err file"

subsection \<open>\<^verbatim>\<open>decompress\<close>\<close>

text \<open>
  The automatic array \<^verbatim>\<open>buffer[CHUNK]\<close> and the bytes of the stack around it, which
  belong to other objects: \<open>fr_outside\<close> gives them by their offset from the first
  element of the array, so the byte in front of the array is at offset -1. Which
  object a byte next to the array belongs to is the compiler's choice; the model
  takes it to be none of the variables the loop reads.
\<close>

record frame =
  fr_outside :: "int \<Rightarrow> char"
  fr_buffer :: string

text \<open>
  \<^verbatim>\<open>buffer[bytes_read] = '\0'\<close>. Nothing checks the index: the byte is stored at that
  offset from the start of the array, in the array or in what lies next to it.
\<close>

definition poke :: "frame \<Rightarrow> int \<Rightarrow> char \<Rightarrow> frame" where
  "poke fr i c =
     (if 0 \<le> i \<and> i < int (length (fr_buffer fr))
      then fr\<lparr>fr_buffer := (fr_buffer fr)[nat i := c]\<rparr>
      else fr\<lparr>fr_outside := (fr_outside fr)(i := c)\<rparr>)"

text \<open>What \<^verbatim>\<open>"%s"\<close> prints of a buffer: the bytes before its first NUL. The array of
  \<^verbatim>\<open>decompress\<close> holds a NUL after every read that returns a count; of an array without
  one the model prints the whole array and does not follow the text behind it.\<close>

definition c_str :: "string \<Rightarrow> string" where
  "c_str buffer = takeWhile (\<lambda>c. c \<noteq> CHR 0x00) buffer"

text \<open>
  \<^verbatim>\<open>g_string_printf\<close> replaces the content of the \<^verbatim>\<open>GString\<close> with the formatted text
  (it is \<^verbatim>\<open>g_string_append_printf\<close> that appends).
\<close>

definition g_string_printf_s :: "string \<Rightarrow> string \<Rightarrow> string" where
  "g_string_printf_s gstring buffer = c_str buffer"

text \<open>
  The \<^verbatim>\<open>while (1)\<close> loop. \<open>fr\<close> is the storage of \<^verbatim>\<open>buffer\<close> as the body finds it: what
  the stack held before the call in the first iteration, what the iteration before
  left there in the others. The result is \<^verbatim>\<open>ret\<close>, the final \<^verbatim>\<open>output\<close>, the indices at
  which the terminator was stored, in order, the storage at the end and the stream at
  the end. The loop has no bound of its own, so not returning is \<open>None\<close>.
\<close>

partial_function (option) decompress_loop ::
  "int \<Rightarrow> frame \<Rightarrow> gzFile \<Rightarrow> string \<Rightarrow> int list
     \<Rightarrow> (int \<times> string \<times> int list \<times> frame \<times> gzFile) option"
where
  "decompress_loop chunk fr input output idx =
    (case gzread input (fr_buffer fr) (chunk - 1) of (bytes_read, buffer, input1) \<Rightarrow>
      (let fr1 = poke (fr\<lparr>fr_buffer := buffer\<rparr>) bytes_read (CHR 0x00);
           output1 = g_string_printf_s output (fr_buffer fr1);
           idx1 = idx @ [bytes_read]
       in if bytes_read < chunk - 1 then
            (if gzeof input1 then Some (TRUE, output1, idx1, fr1, input1)
             else if gzerror input1 \<noteq> 0 then Some (FALSE, output1, idx1, fr1, input1)
             else decompress_loop chunk fr1 input1 output1 idx1)
          else decompress_loop chunk fr1 input1 output1 idx1))"

declare decompress_loop.simps [code]

definition decompress ::
  "macros \<Rightarrow> frame \<Rightarrow> gzFile \<Rightarrow> string
     \<Rightarrow> (int \<times> string \<times> int list \<times> frame \<times> gzFile) option" where
  "decompress cfg junk input output = decompress_loop (CHUNK cfg) junk input output []"

subsection \<open>GLib string helpers\<close>

text \<open>\<^verbatim>\<open>g_str_has_suffix\<close> and \<^verbatim>\<open>g_str_has_prefix\<close>, as GLib implements them.\<close>

definition g_str_has_suffix :: "string \<Rightarrow> string \<Rightarrow> bool" where
  "g_str_has_suffix str suf =
     (if length str < length suf then False
      else drop (length str - length suf) str = suf)"

definition g_str_has_prefix :: "string \<Rightarrow> string \<Rightarrow> bool" where
  "g_str_has_prefix str pre = (take (length pre) str = pre)"

definition g_ascii_isdigit :: "char \<Rightarrow> bool" where
  "g_ascii_isdigit c = (c \<in> set ''0123456789'')"

definition g_strndup :: "string \<Rightarrow> nat \<Rightarrow> string" where
  "g_strndup str n = take n str"

text \<open>
  \<^verbatim>\<open>g_strsplit(string, ".", -1)\<close>: the pieces between the delimiters, with no limit on
  their number; the empty string splits into the empty vector. The delimiter of the
  only call is one character long.
\<close>

fun pieces :: "char \<Rightarrow> string \<Rightarrow> string list" where
  "pieces d [] = [[]]"
| "pieces d (c # cs) =
     (if c = d then [] # pieces d cs
      else (case pieces d cs of [] \<Rightarrow> [[c]] | p # ps \<Rightarrow> (c # p) # ps))"

definition g_strsplit :: "string \<Rightarrow> char \<Rightarrow> string list" where
  "g_strsplit str d = (if str = [] then [] else pieces d str)"

subsection \<open>The product database (\<^verbatim>\<open>productdb.c\<close>, not among the sources)\<close>

record ProductDb =
  path :: string
  repoMap :: "string \<rightharpoonup> string set"

text \<open>
  Modelled from the spec: \<^verbatim>\<open>initProductDb\<close> is missing from the sources; the database is
  a mapping from product id to a set of repository ids, "constructed empty" at the
  start of a pass.
\<close>

definition initProductDb :: ProductDb where
  "initProductDb = \<lparr>path = [], repoMap = Map.empty\<rparr>"

text \<open>
  Modelled from the spec: \<^verbatim>\<open>hasProductId\<close> is missing from the sources;
  \<^verbatim>\<open>has(database, product_id)\<close> tells whether the product id has an entry.
\<close>

definition hasProductId :: "ProductDb \<Rightarrow> string \<Rightarrow> bool" where
  "hasProductId productDb product_id = (repoMap productDb product_id \<noteq> None)"

text \<open>
  Modelled from the spec: \<^verbatim>\<open>addRepoId\<close> is missing from the sources;
  \<^verbatim>\<open>add(database, product_id, repo_id)\<close> is idempotent and unions a new repository id
  into the set of an existing product id.
\<close>

definition addRepoId :: "ProductDb \<Rightarrow> string \<Rightarrow> string \<Rightarrow> ProductDb" where
  "addRepoId productDb product_id repo_id =
     productDb\<lparr>repoMap := (repoMap productDb)
       (product_id \<mapsto> insert repo_id
          (case repoMap productDb product_id of None \<Rightarrow> {} | Some ids \<Rightarrow> ids))\<rparr>"

subsection \<open>What the plugin sees of libdnf, librepo and OpenSSL\<close>

record DnfPackage =
  nevra :: string
  reponame :: string

text \<open>
  The answer of \<^verbatim>\<open>lr_result_getinfo(..., LRR_YUM_REPOMD, ...)\<close> for a repository: an
  error, no metadata, or the metadata with the types of its records.
\<close>

datatype repomd_info = RepomdError | RepomdNull | Repomd "string list"

text \<open>
  What librepo answers while \<^verbatim>\<open>fetchProductId\<close> runs: whether each
  \<^verbatim>\<open>lr_handle_getinfo\<close> call sets the error, whether \<^verbatim>\<open>lr_handle_perform\<close> succeeds,
  whether \<^verbatim>\<open>lr_yum_repo_init\<close> returns an object, whether the final
  \<^verbatim>\<open>lr_result_getinfo\<close> sets the error, and the path of the downloaded record.
\<close>

record librepo =
  destdir_err :: bool
  urls_err :: bool
  varsub_err :: bool
  perform_ok :: bool
  yum_repo_init_ok :: bool
  yum_repo_err :: bool
  yum_repo_path :: string

record DnfRepo =
  repo_id :: string
  repo_enabled :: "32 word"
  repomd :: repomd_info
  lr :: librepo

record RepoProductId =
  repo :: DnfRepo
  productIdPath :: string

text \<open>
  \<open>rpmdb_sack\<close> is the sack that \<^verbatim>\<open>dnf_sack_new\<close>, \<^verbatim>\<open>dnf_sack_setup\<close> and
  \<^verbatim>\<open>dnf_sack_load_system_repo\<close> produce (\<open>None\<close> when \<^verbatim>\<open>dnf_sack_new\<close> returns NULL);
  \<open>repos\<close> is \<open>None\<close> when \<^verbatim>\<open>dnf_context_get_repos\<close> returns NULL.
\<close>

record DnfContext =
  repos :: "DnfRepo list option"
  sack :: "DnfPackage list"
  cache_only :: bool
  rpmdb_sack :: "DnfPackage list option"

record PluginHandle =
  version :: int
  mode :: int
  initData :: DnfContext

datatype PluginHookId =
    PLUGIN_HOOK_ID_CONTEXT_PRE_CONF
  | PLUGIN_HOOK_ID_CONTEXT_CONF
  | PLUGIN_HOOK_ID_CONTEXT_PRE_TRANSACTION
  | PLUGIN_HOOK_ID_CONTEXT_TRANSACTION
  | PLUGIN_HOOK_ID_CONTEXT_PRE_REPOS_RELOAD
  | PLUGIN_HOOK_ID_OTHER int

definition DNF_REPO_ENABLED_PACKAGES :: "32 word" where
  "DNF_REPO_ENABLED_PACKAGES = 1"

definition HY_SYSTEM_REPO_NAME :: string where
  "HY_SYSTEM_REPO_NAME = ''@System''"

text \<open>
  An extension of a certificate, reduced to the numerical text of its object
  identifier (what \<^verbatim>\<open>OBJ_obj2txt\<close> renders with \<^verbatim>\<open>no_name = 1\<close>) and its value.
\<close>

record X509_EXTENSION =
  obj :: string
  ext_value :: string

record X509 =
  extensions :: "X509_EXTENSION list"

text \<open>
  OpenSSL's part: \<^verbatim>\<open>BIO_new_mem_buf\<close> gives a memory BIO over the bytes or NULL,
  \<^verbatim>\<open>PEM_read_bio_X509\<close> parses the bytes of a BIO into a certificate or gives NULL.
\<close>

record libcrypto =
  BIO_new_mem_buf :: "string \<Rightarrow> string option"
  PEM_read_bio_X509 :: "string \<Rightarrow> X509 option"

subsection \<open>The world outside the process\<close>

text \<open>
  The calls that reach outside are recorded as events, in order. \<open>Visit r n\<close> is the
  inner scan of \<^verbatim>\<open>getActive\<close> taking up the available package \<open>n\<close> of repository \<open>r\<close>.
\<close>

datatype event =
    Mkdir string
  | GetRepos
  | Fetch string
  | QueryInstalled
  | QueryAvailable string
  | Visit string string
  | GzOpen string
  | WriteFile string string
  | AddRepoId string string
  | Remove string
  | WriteProductDb string

text \<open>
  \<open>cert_dir\<close> holds the entries (name and content) of the directory
  \<^verbatim>\<open>PRODUCT_CERT_DIR\<close>, \<open>None\<close> when it cannot be opened; \<open>gz_files\<close> gives for a path
  the uncompressed bytes and the zlib error of the file that \<^verbatim>\<open>gzopen\<close> opens there;
  \<open>productdb_file\<close> is the persisted database; the \<open>_fails\<close> fields say which calls the
  operating system refuses; \<open>stack\<close> is the part of the stack where \<^verbatim>\<open>decompress\<close> has its
  chunk buffer, as a call finds it.
\<close>

record world =
  mkdir_fails :: "string \<Rightarrow> bool"
  gz_files :: "string \<Rightarrow> (string \<times> int) option"
  cert_dir :: "(string \<times> string) list option"
  fopen_fails :: "string \<Rightarrow> bool"
  remove_fails :: "string \<Rightarrow> bool"
  productdb_file :: "(string \<rightharpoonup> string set) option"
  write_fails :: bool
  stack :: frame
  trace :: "event list"
  diag :: log

definition emit :: "event \<Rightarrow> world \<Rightarrow> world" where
  "emit e w = w\<lparr>trace := trace w @ [e]\<rparr>"

definition say :: "level \<Rightarrow> string \<Rightarrow> world \<Rightarrow> world" where
  "say l msg w = w\<lparr>diag := diag w @ [(l, msg)]\<rparr>"

subsection \<open>\<^verbatim>\<open>removeUnusedProductCerts\<close>\<close>

text \<open>The \<^verbatim>\<open>for\<close> loop that tests whether the stem is a number; it breaks at the first
  character that is not a digit.\<close>

fun is_num_loop :: "string \<Rightarrow> bool" where
  "is_num_loop [] = True"
| "is_num_loop (c # cs) = (if \<not> g_ascii_isdigit c then False else is_num_loop cs)"

text \<open>\<^verbatim>\<open>g_remove\<close> of an entry of the certificate directory; -1 when it is refused.\<close>

definition g_remove :: "macros \<Rightarrow> string \<Rightarrow> world \<Rightarrow> int \<times> world" where
  "g_remove cfg file_name w =
     (let w1 = emit (Remove (PRODUCT_CERT_DIR cfg @ file_name)) w
      in if remove_fails w (PRODUCT_CERT_DIR cfg @ file_name) then (- 1, w1)
         else (0, w1\<lparr>cert_dir := map_option (AList.delete file_name) (cert_dir w1)\<rparr>))"

text \<open>
  The \<^verbatim>\<open>do ... while\<close> loop over the names that \<^verbatim>\<open>g_dir_read_name\<close> returns. (The
  branch that looks at \<^verbatim>\<open>errno\<close> once the names are used up only prints a diagnostic.)
\<close>

fun sweep_loop :: "macros \<Rightarrow> ProductDb \<Rightarrow> string list \<Rightarrow> world \<Rightarrow> world" where
  "sweep_loop cfg productDb [] w = w"
| "sweep_loop cfg productDb (file_name # rest) w =
     (if g_str_has_suffix file_name ''.pem'' then
        (let product_id = g_strndup file_name (length file_name - 4);
             is_num = is_num_loop product_id
         in if \<not> is_num then
              sweep_loop cfg productDb rest
                (say Debug ''Name of product certificate is wrong (not digits only). Skipping.'' w)
            else if \<not> hasProductId productDb product_id then
              (case g_remove cfg file_name (say Info ''Removing product certificate'' w) of
                 (ret, w1) \<Rightarrow>
                   sweep_loop cfg productDb rest
                     (if ret = - 1 then say Error ''Unable to remove product certificate'' w1
                      else w1))
            else sweep_loop cfg productDb rest w)
      else sweep_loop cfg productDb rest w)"

definition removeUnusedProductCerts :: "macros \<Rightarrow> ProductDb \<Rightarrow> world \<Rightarrow> int \<times> world" where
  "removeUnusedProductCerts cfg productDb w =
     (case cert_dir w of
        Some entries \<Rightarrow> (0, sweep_loop cfg productDb (map fst entries) w)
      | None \<Rightarrow> (0, say Error ''Unable to open directory with product certificates'' w))"

subsection \<open>\<^verbatim>\<open>writeRepoMap\<close>\<close>

text \<open>
  Modelled from the spec: \<^verbatim>\<open>writeProductDb\<close> is missing from the sources;
  \<^verbatim>\<open>save(database, path)\<close> persists the mapping or fails with an error.
\<close>

definition writeProductDb :: "ProductDb \<Rightarrow> world \<Rightarrow> bool \<times> world" where
  "writeProductDb productDb w =
     (let w1 = emit (WriteProductDb (path productDb)) w
      in if write_fails w then (True, w1)
         else (False, w1\<lparr>productdb_file := Some (repoMap productDb)\<rparr>))"

definition writeRepoMap :: "ProductDb \<Rightarrow> world \<Rightarrow> world" where
  "writeRepoMap productDb w =
     (case writeProductDb productDb w of
        (err, w1) \<Rightarrow> if err then say Error ''Unable to write productdb to file'' w1 else w1)"

subsection \<open>\<^verbatim>\<open>getEnabled\<close> and \<^verbatim>\<open>getActive\<close>\<close>

fun getEnabled :: "DnfRepo list \<Rightarrow> DnfRepo list" where
  "getEnabled [] = []"
| "getEnabled (r # rest) =
     (if 0 < (repo_enabled r AND DNF_REPO_ENABLED_PACKAGES) then r # getEnabled rest
      else getEnabled rest)"

text \<open>\<^verbatim>\<open>hy_query_run\<close> of a query filtered on the name of the repository.\<close>

definition hy_query_reponame :: "DnfPackage list \<Rightarrow> string \<Rightarrow> DnfPackage list" where
  "hy_query_reponame pkgs name = filter (\<lambda>p. reponame p = name) pkgs"

text \<open>The loop over \<open>k\<close>: is the package among the installed ones? It breaks at the
  first one whose nevra compares equal (\<^verbatim>\<open>g_strcmp0(...) == 0\<close>).\<close>

fun installed_loop :: "DnfPackage \<Rightarrow> DnfPackage list \<Rightarrow> bool" where
  "installed_loop pkg [] = False"
| "installed_loop pkg (instPkg # rest) =
     (if nevra pkg = nevra instPkg then True else installed_loop pkg rest)"

text \<open>The loop over \<open>j\<close>: the available packages of one repository, up to the first
  one that is installed.\<close>

fun available_loop :: "string \<Rightarrow> DnfPackage list \<Rightarrow> DnfPackage list \<Rightarrow> bool \<times> event list" where
  "available_loop rid [] installedPackages = (False, [])"
| "available_loop rid (pkg # rest) installedPackages =
     (if installed_loop pkg installedPackages then (True, [Visit rid (nevra pkg)])
      else (case available_loop rid rest installedPackages of
              (found, evs) \<Rightarrow> (found, Visit rid (nevra pkg) # evs)))"

text \<open>The loop over \<open>i\<close>: one query of the available packages for each entry.\<close>

fun active_loop ::
  "DnfContext \<Rightarrow> DnfPackage list \<Rightarrow> RepoProductId list \<Rightarrow> RepoProductId list \<times> event list" where
  "active_loop context installedPackages [] = ([], [])"
| "active_loop context installedPackages (repoProductId # rest) =
     (let rid = repo_id (repo repoProductId);
          availPackageList = hy_query_reponame (sack context) rid
      in case available_loop rid availPackageList installedPackages of
           (found, evs) \<Rightarrow>
             (case active_loop context installedPackages rest of
                (active, evs1) \<Rightarrow>
                  ((if found then [repoProductId] else []) @ active,
                   QueryAvailable rid # evs @ evs1)))"

text \<open>
  \<^verbatim>\<open>getActive\<close> returns the array \<^verbatim>\<open>activeRepoAndProductIds\<close>, the queries and scans it
  made, and its diagnostics. (A failure of \<^verbatim>\<open>dnf_sack_setup\<close> or
  \<^verbatim>\<open>dnf_sack_load_system_repo\<close> only prints; the sack then holds what was loaded.)
\<close>

definition getActive ::
  "DnfContext \<Rightarrow> RepoProductId list \<Rightarrow> RepoProductId list \<times> event list \<times> log" where
  "getActive context repoAndProductIds =
     (case rpmdb_sack context of
        None \<Rightarrow> ([], [], [(Error, ''Unable to create new sack object for quering rpmdb'')])
      | Some rpmDbSack \<Rightarrow>
          (let installedPackages = hy_query_reponame rpmDbSack HY_SYSTEM_REPO_NAME
           in case active_loop context installedPackages repoAndProductIds of
                (active, evs) \<Rightarrow> (active, QueryInstalled # evs, [])))"

subsection \<open>\<^verbatim>\<open>fetchProductId\<close>\<close>

text \<open>
  The error pointer \<^verbatim>\<open>tmp_err\<close> is not cleared between the calls, so after a successful
  download it is set when any of the \<^verbatim>\<open>getinfo\<close> calls has set it.
\<close>

definition fetchProductId :: "DnfRepo \<Rightarrow> world \<Rightarrow> int \<times> RepoProductId option \<times> world" where
  "fetchProductId r w =
     (let w1 = (if destdir_err (lr r)
                then say Error ''Unable to get information about destination folder'' w else w);
          w2 = (if urls_err (lr r)
                then say Error ''Unable to get information about URLs'' w1 else w1);
          w3 = (if varsub_err (lr r)
                then say Error ''Unable to get variable substitution for URL'' w2 else w2);
          w4 = emit (Fetch (repo_id r)) w3
      in if perform_ok (lr r) then
           (if yum_repo_init_ok (lr r) then
              (if destdir_err (lr r) \<or> urls_err (lr r) \<or> varsub_err (lr r) \<or> yum_repo_err (lr r)
               then (0, None, say Error ''Unable to get information about repository'' w4)
               else (1, Some \<lparr>repo = r, productIdPath = yum_repo_path (lr r)\<rparr>, w4))
            else (0, None, say Error ''Unable to initialize LrYumRepo'' w4))
         else (0, None, say Error ''Unable to download product certificate'' w4))"

subsection \<open>\<^verbatim>\<open>findProductId\<close>\<close>

definition X509_get_ext_count :: "X509 \<Rightarrow> nat" where
  "X509_get_ext_count x509 = length (extensions x509)"

definition X509_get_ext :: "X509 \<Rightarrow> nat \<Rightarrow> X509_EXTENSION option" where
  "X509_get_ext x509 i = (if i < length (extensions x509) then Some (extensions x509 ! i) else None)"

text \<open>\<^verbatim>\<open>OBJ_obj2txt(oid, MAX_BUFF, ..., 1)\<close> writes at most \<^verbatim>\<open>MAX_BUFF - 1\<close> characters of
  the text and the terminator.\<close>

definition OBJ_obj2txt :: "int \<Rightarrow> X509_EXTENSION \<Rightarrow> string" where
  "OBJ_obj2txt buf_len ext = take (nat (buf_len - 1)) (obj ext)"

text \<open>
  The loop over the extensions, for the indices still to visit. The result is
  \<^verbatim>\<open>ret_val\<close>, \<^verbatim>\<open>redhat_oid_found\<close>, the string \<^verbatim>\<open>result\<close> and the diagnostics.
\<close>

fun ext_loop :: "macros \<Rightarrow> X509 \<Rightarrow> nat list \<Rightarrow> string \<Rightarrow> int \<times> bool \<times> string \<times> log" where
  "ext_loop cfg x509 [] result = (1, False, result, [])"
| "ext_loop cfg x509 (i # rest) result =
     (case X509_get_ext x509 i of
        None \<Rightarrow> (- 1, False, result, [(Debug, ''Failed to get extension of X509 structure'')])
      | Some ext \<Rightarrow>
          (let oid = OBJ_obj2txt (MAX_BUFF cfg) ext
           in if g_str_has_prefix oid (REDHAT_PRODUCT_OID cfg) then
                (let components = g_strsplit oid (CHR ''.'');
                     comp_id = length components
                 in if comp_id > 9 then
                      (1, True, components ! 9, [(Debug, ''ID of product certificate'')])
                    else
                      (- 1, True, result,
                       [(Error, ''Product certificate does not contain required ID'')]))
              else ext_loop cfg x509 rest result))"

definition findProductId ::
  "libcrypto \<Rightarrow> macros \<Rightarrow> string \<Rightarrow> string \<Rightarrow> int \<times> string \<times> log" where
  "findProductId ssl cfg certContent result =
     (case BIO_new_mem_buf ssl certContent of
        None \<Rightarrow>
          (- 1, result, [(Debug, ''Unable to create buffer for content of certificate'')])
      | Some bio \<Rightarrow>
          (case PEM_read_bio_X509 ssl bio of
             None \<Rightarrow>
               (- 1, result,
                [(Debug, ''Failed to read content of certificate from buffer to X509 structure'')])
           | Some x509 \<Rightarrow>
               (case ext_loop cfg x509 [0..<X509_get_ext_count x509] result of
                  (ret_val, redhat_oid_found, result1, lg) \<Rightarrow>
                    if redhat_oid_found = False then
                      (- 1, result1,
                       lg @ [(Warn, ''Red Hat Product OID: '' @ REDHAT_PRODUCT_OID cfg
                                     @ '' not found'')])
                    else (ret_val, result1, lg))))"

subsection \<open>\<^verbatim>\<open>installProductId\<close>\<close>

text \<open>\<^verbatim>\<open>g_mkdir_with_parents\<close>: 0 when the directory exists afterwards, -1 otherwise.\<close>

definition g_mkdir_with_parents :: "macros \<Rightarrow> string \<Rightarrow> world \<Rightarrow> int \<times> world" where
  "g_mkdir_with_parents cfg dir w =
     (let w1 = emit (Mkdir dir) w
      in if mkdir_fails w dir then (- 1, w1)
         else (0, if dir = PRODUCT_CERT_DIR cfg \<and> cert_dir w1 = None
                  then w1\<lparr>cert_dir := Some []\<rparr> else w1))"

text \<open>
  \<^verbatim>\<open>fopen(outname, "w+")\<close>, \<^verbatim>\<open>fprintf(fileOutput, "%s", ...)\<close> and \<^verbatim>\<open>fclose\<close> for the file
  \<open>name\<close> of the certificate directory; \<open>False\<close> when \<^verbatim>\<open>fopen\<close> returns NULL.
\<close>

definition write_cert :: "macros \<Rightarrow> string \<Rightarrow> string \<Rightarrow> world \<Rightarrow> bool \<times> world" where
  "write_cert cfg name content w =
     (if fopen_fails w (PRODUCT_CERT_DIR cfg @ name) then (False, w)
      else (True,
            (emit (WriteFile (PRODUCT_CERT_DIR cfg @ name) (c_str content)) w)
              \<lparr>cert_dir := map_option (AList.update name (c_str content)) (cert_dir w)\<rparr>))"

text \<open>
  The result is \<open>None\<close> when \<^verbatim>\<open>decompress\<close> does not return. The test
  \<^verbatim>\<open>if (productIdFound)\<close> is the C test for a value other than 0.
\<close>

definition installProductId ::
  "libcrypto \<Rightarrow> macros \<Rightarrow> RepoProductId \<Rightarrow> ProductDb \<Rightarrow> world
     \<Rightarrow> (int \<times> ProductDb \<times> world) option" where
  "installProductId ssl cfg repoProductId productDb w =
     (let w1 = emit (GzOpen (productIdPath repoProductId)) w
      in case gz_files w (productIdPath repoProductId) of
           None \<Rightarrow>
             Some (0, productDb, say Debug ''Unable to open compressed product certificate'' w1)
         | Some (bytes, fault) \<Rightarrow>
             (case decompress cfg (stack w) (gz_stream bytes fault) [] of
                None \<Rightarrow> None
              | Some (decompressSuccess, pemOutput, idx, fr, input1) \<Rightarrow>
                  if decompressSuccess = FALSE then Some (0, productDb, w1)
                  else
                    (case findProductId ssl cfg pemOutput [] of
                       (productIdFound, outname, lg) \<Rightarrow>
                         (let w2 = w1\<lparr>diag := diag w1 @ lg\<rparr>
                          in if productIdFound \<noteq> 0 then
                               (case g_mkdir_with_parents cfg (PRODUCT_CERT_DIR cfg) w2 of
                                  (ret_val, w3) \<Rightarrow>
                                    if ret_val = 0 then
                                      (let productId = outname
                                       in case write_cert cfg (outname @ ''.pem'') pemOutput w3 of
                                            (opened, w4) \<Rightarrow>
                                              if opened then
                                                Some (1,
                                                  addRepoId productDb productId
                                                    (repo_id (repo repoProductId)),
                                                  emit (AddRepoId productId
                                                          (repo_id (repo repoProductId)))
                                                    (say Info ''Product certificate installed'' w4))
                                              else
                                                Some (0, productDb,
                                                  say Error ''Unable write to file with certificate file'' w4))
                                    else Some (0, productDb, say Error ''Unable to create directory'' w3))
                             else Some (0, productDb, w2)))))"

subsection \<open>\<^verbatim>\<open>pluginHook\<close>\<close>

text \<open>The loop over the enabled repositories that fills \<^verbatim>\<open>repoAndProductIds\<close>.\<close>

fun fetch_loop :: "DnfRepo list \<Rightarrow> world \<Rightarrow> RepoProductId list \<times> world" where
  "fetch_loop [] w = ([], w)"
| "fetch_loop (r # rest) w =
     (case repomd r of
        RepomdError \<Rightarrow>
          fetch_loop rest (say Error ''Unable to get information about repository'' w)
      | Repomd records \<Rightarrow>
          (if ''productid'' \<in> set records then
             (case fetchProductId r w of
                (fetchSuccess, repoProductId, w1) \<Rightarrow>
                  (case fetch_loop rest w1 of
                     (found, w2) \<Rightarrow>
                       ((if fetchSuccess = 1 then (case repoProductId of None \<Rightarrow> [] | Some x \<Rightarrow> [x])
                         else []) @ found, w2)))
           else fetch_loop rest w)
      | RepomdNull \<Rightarrow>
          fetch_loop rest (say Error ''Unable to get valid information about repository'' w))"

text \<open>The loop over \<^verbatim>\<open>activeRepoAndProductIds\<close>; the value that \<^verbatim>\<open>installProductId\<close>
  returns is not looked at.\<close>

fun install_loop ::
  "libcrypto \<Rightarrow> macros \<Rightarrow> RepoProductId list \<Rightarrow> ProductDb \<Rightarrow> world
     \<Rightarrow> (ProductDb \<times> world) option" where
  "install_loop ssl cfg [] productDb w = Some (productDb, w)"
| "install_loop ssl cfg (activeRepoProductId # rest) productDb w =
     (case installProductId ssl cfg activeRepoProductId productDb w of
        None \<Rightarrow> None
      | Some (ret, productDb1, w1) \<Rightarrow> install_loop ssl cfg rest productDb1 w1)"

definition pluginHook ::
  "libcrypto \<Rightarrow> macros \<Rightarrow> PluginHandle option \<Rightarrow> PluginHookId \<Rightarrow> world
     \<Rightarrow> (int \<times> world) option" where
  "pluginHook ssl cfg handle hook_id w =
     (case handle of
        None \<Rightarrow> Some (0, w)
      | Some h \<Rightarrow>
          if hook_id = PLUGIN_HOOK_ID_CONTEXT_TRANSACTION then
            (let dnfContext = initData h
             in case g_mkdir_with_parents cfg (PRODUCTDB_DIR cfg) w of
                  (ret_val, w1) \<Rightarrow>
                    if ret_val \<noteq> 0 then Some (1, say Error ''Unable to create directory'' w1)
                    else
                      (case repos dnfContext of
                         None \<Rightarrow> Some (1, emit GetRepos w1)
                       | Some all_repos \<Rightarrow>
                           (let productDb = initProductDb\<lparr>path := PRODUCTDB_FILE cfg\<rparr>;
                                enabledRepos = getEnabled all_repos
                            in case fetch_loop enabledRepos (emit GetRepos w1) of
                                 (repoAndProductIds, w2) \<Rightarrow>
                                   (case getActive dnfContext repoAndProductIds of
                                      (activeRepoAndProductIds, evs, lg) \<Rightarrow>
                                        (case install_loop ssl cfg activeRepoAndProductIds productDb
                                                (w2\<lparr>trace := trace w2 @ evs, diag := diag w2 @ lg\<rparr>) of
                                           None \<Rightarrow> None
                                         | Some (productDb1, w3) \<Rightarrow>
                                             (case removeUnusedProductCerts cfg productDb1 w3 of
                                                (r, w4) \<Rightarrow> Some (1, writeRepoMap productDb1 w4)))))))
          else Some (1, w))"

section \<open>Concrete inputs\<close>

text \<open>One setting of the macros and of the stack, used where a statement is evaluated.\<close>

definition sample_macros :: macros where
  "sample_macros =
     \<lparr>CHUNK = 16384, MAX_BUFF = 256, REDHAT_PRODUCT_OID = ''1.3.6.1.4.1.2312.9.1'',
      PRODUCT_CERT_DIR = ''/etc/pki/product/'', PRODUCTDB_DIR = ''/var/lib/rhsm/'',
      PRODUCTDB_FILE = ''/var/lib/rhsm/productid.js''\<rparr>"

text \<open>The stack as a call of \<^verbatim>\<open>decompress\<close> finds it: an array of 16384 bytes left by
  earlier calls, between bytes that are not 0.\<close>

definition sample_stack :: frame where
  "sample_stack =
     \<lparr>fr_outside = (\<lambda>i. CHR ''y''),
      fr_buffer = ''stale'' @ CHR 0x00 # replicate 16378 (CHR ''x'')\<rparr>"

text \<open>
  A system with two enabled repositories that publish a product certificate. The
  package of \<open>repo-a\<close> is installed, the package of \<open>repo-b\<close> is not. The certificate
  directory holds the certificate of product 69, a stale certificate 99, and two
  files that are not certificates of a product; the persisted database still maps
  product 99 to a repository of an earlier pass.
\<close>

definition sample_lr :: "string \<Rightarrow> librepo" where
  "sample_lr file =
     \<lparr>destdir_err = False, urls_err = False, varsub_err = False, perform_ok = True,
      yum_repo_init_ok = True, yum_repo_err = False, yum_repo_path = file\<rparr>"

definition sample_repo_a :: DnfRepo where
  "sample_repo_a =
     \<lparr>repo_id = ''repo-a'', repo_enabled = 1, repomd = Repomd [''primary'', ''productid''],
      lr = sample_lr ''/var/cache/dnf/repo-a/productid.gz''\<rparr>"

definition sample_repo_b :: DnfRepo where
  "sample_repo_b =
     \<lparr>repo_id = ''repo-b'', repo_enabled = 1, repomd = Repomd [''primary'', ''productid''],
      lr = sample_lr ''/var/cache/dnf/repo-b/productid.gz''\<rparr>"

definition sample_entry_a :: RepoProductId where
  "sample_entry_a =
     \<lparr>repo = sample_repo_a, productIdPath = ''/var/cache/dnf/repo-a/productid.gz''\<rparr>"

definition sample_entry_b :: RepoProductId where
  "sample_entry_b =
     \<lparr>repo = sample_repo_b, productIdPath = ''/var/cache/dnf/repo-b/productid.gz''\<rparr>"

definition sample_context :: DnfContext where
  "sample_context =
     \<lparr>repos = Some [sample_repo_a, sample_repo_b],
      sack = [\<lparr>nevra = ''foo-0:1.0-1.x86_64'', reponame = ''repo-a''\<rparr>,
              \<lparr>nevra = ''bar-0:2.0-1.noarch'', reponame = ''repo-b''\<rparr>],
      cache_only = False,
      rpmdb_sack = Some [\<lparr>nevra = ''foo-0:1.0-1.x86_64'', reponame = ''@System''\<rparr>]\<rparr>"

definition sample_handle :: PluginHandle where
  "sample_handle = \<lparr>version = 1, mode = 0, initData = sample_context\<rparr>"

text \<open>Three certificates: one of product 69, one without an extension of the vendor,
  one whose vendor extension stops after nine components.\<close>

definition sample_cert :: X509 where
  "sample_cert =
     \<lparr>extensions = [\<lparr>obj = ''2.5.29.19'', ext_value = []\<rparr>,
                    \<lparr>obj = ''1.3.6.1.4.1.2312.9.1.69.1'', ext_value = ''Product''\<rparr>,
                    \<lparr>obj = ''1.3.6.1.4.1.2312.9.1.70.1'', ext_value = ''Other''\<rparr>]\<rparr>"

definition sample_cert_plain :: X509 where
  "sample_cert_plain = \<lparr>extensions = [\<lparr>obj = ''2.5.29.19'', ext_value = []\<rparr>]\<rparr>"

definition sample_cert_short :: X509 where
  "sample_cert_short =
     \<lparr>extensions = [\<lparr>obj = ''2.5.29.19'', ext_value = []\<rparr>,
                    \<lparr>obj = ''1.3.6.1.4.1.2312.9.1'', ext_value = []\<rparr>]\<rparr>"

definition sample_ssl :: libcrypto where
  "sample_ssl =
     \<lparr>BIO_new_mem_buf = Some,
      PEM_read_bio_X509 =
        (\<lambda>pem. if pem = ''PEM-69'' then Some sample_cert
               else if pem = ''PEM-plain'' then Some sample_cert_plain
               else if pem = ''PEM-short'' then Some sample_cert_short
               else None)\<rparr>"

text \<open>
  Two certificates whose vendor extension has an object identifier of 11 components
  that is longer than the 255 characters \<^verbatim>\<open>OBJ_obj2txt\<close> writes with
  \<^verbatim>\<open>MAX_BUFF = 256\<close>: in the first the component at index 9 is long, in the second
  the component at index 8.
\<close>

definition long_oid :: string where
  "long_oid = ''1.3.6.1.4.1.2312.9.1.'' @ replicate 300 (CHR ''7'') @ ''.1''"

definition long_oid_early :: string where
  "long_oid_early = ''1.3.6.1.4.1.2312.9.'' @ replicate 300 (CHR ''1'') @ ''.69.1''"

definition sample_cert_long :: X509 where
  "sample_cert_long = \<lparr>extensions = [\<lparr>obj = long_oid, ext_value = ''Product''\<rparr>]\<rparr>"

definition sample_cert_long_early :: X509 where
  "sample_cert_long_early = \<lparr>extensions = [\<lparr>obj = long_oid_early, ext_value = ''Product''\<rparr>]\<rparr>"

definition sample_ssl_long :: libcrypto where
  "sample_ssl_long =
     \<lparr>BIO_new_mem_buf = Some,
      PEM_read_bio_X509 =
        (\<lambda>pem. if pem = ''PEM-long'' then Some sample_cert_long
               else if pem = ''PEM-long-early'' then Some sample_cert_long_early
               else None)\<rparr>"

definition sample_world :: world where
  "sample_world =
     \<lparr>mkdir_fails = (\<lambda>dir. False),
      gz_files = (\<lambda>file. if file = ''/var/cache/dnf/repo-a/productid.gz''
                          then Some (''PEM-69'', 0) else None),
      cert_dir = Some [(''69.pem'', ''old''), (''99.pem'', ''stale''),
                       (''abc.pem'', ''other''), (''README'', ''text'')],
      fopen_fails = (\<lambda>file. False),
      remove_fails = (\<lambda>file. False),
      productdb_file = Some [''99'' \<mapsto> {''repo-z''}],
      write_fails = False,
      stack = sample_stack,
      trace = [],
      diag = []\<rparr>"


section \<open>Properties of \<^verbatim>\<open>decompress\<close>\<close>

lemma length_fr_buffer_poke [simp]:
  "length (fr_buffer (poke fr i c)) = length (fr_buffer fr)"
  by (simp add: poke_def)

lemma c_str_poke:
  assumes "length got < length buf"
  shows "c_str (fr_buffer (poke (fr\<lparr>fr_buffer := got @ drop (length got) buf\<rparr>)
                             (int (length got)) (CHR 0x00))) = c_str got"
proof -
  obtain x rest where d: "drop (length got) buf = x # rest"
    using assms by (cases "drop (length got) buf") auto
  have "(got @ x # rest)[length got := CHR 0x00] = got @ CHR 0x00 # rest"
    by (simp add: list_update_append)
  then show ?thesis using assms d
    by (simp add: poke_def c_str_def takeWhile_tail)
qed

text \<open>
  On a freshly opened stream the loop returns when the chunk size leaves room for at
  least one byte of data. It returns \<^verbatim>\<open>FALSE\<close> exactly when the stream ends with an
  error on which \<^verbatim>\<open>gzread\<close> gives up, and then -1 is among the indices; otherwise
  all indices lie in the array. At the return \<^verbatim>\<open>gzerror\<close> gives what the stream ended
  with, so \<^verbatim>\<open>Z_BUF_ERROR\<close> after an input that is cut off, for which the loop returns
  \<^verbatim>\<open>TRUE\<close>.
\<close>

lemma decompress_loop_returns:
  assumes "2 \<le> chunk" "gz_err f = 0" "\<not> gz_past f"
  shows "\<exists>out' idx' fr' f'. decompress_loop chunk fr f out idx
            = Some (if gz_fatal (gz_fault f) then FALSE else TRUE, out', idx @ idx', fr', f')
          \<and> (\<forall>i\<in>set idx'. - 1 \<le> i \<and> i \<le> chunk - 1)
          \<and> (\<not> gz_fatal (gz_fault f) \<longrightarrow> (\<forall>i\<in>set idx'. 0 \<le> i))
          \<and> (gz_fatal (gz_fault f) \<longrightarrow> - 1 \<in> set idx')
          \<and> gzerror f' = gz_fault f
          \<and> (gzeof f' \<longleftrightarrow> \<not> gz_fatal (gz_fault f))"
  using assms
proof (induction "length (gz_pending f)" arbitrary: f fr out idx rule: less_induct)
  case less
  define got where "got = take (nat (chunk - 1)) (gz_pending f)"
  define buf1 where "buf1 = got @ drop (length got) (fr_buffer fr)"
  have nf: "\<not> gz_fatal (gz_err f)" using less.prems by (simp add: gz_fatal_def)
  have pos: "0 < chunk - 1" "\<not> chunk - 1 < 0" using less.prems by simp_all
  have gle: "int (length got) \<le> chunk - 1" using less.prems by (simp add: got_def)
  consider (err) "length got < nat (chunk - 1)" "gz_fatal (gz_fault f)"
    | (eof) "length got < nat (chunk - 1)" "\<not> gz_fatal (gz_fault f)"
    | (more) "\<not> length got < nat (chunk - 1)"
    by blast
  then show ?case
  proof cases
    case err
    have rd: "gzread f (fr_buffer fr) (chunk - 1)
        = (- 1, buf1, f\<lparr>gz_pending := drop (nat (chunk - 1)) (gz_pending f),
                        gz_err := gz_fault f\<rparr>)"
      using err nf pos by (simp add: gzread_def Let_def got_def[symmetric] buf1_def)
    have "gz_fault f \<noteq> 0" using err by (simp add: gz_fatal_def)
    then show ?thesis using err less.prems pos
      by (subst decompress_loop.simps)
         (simp add: rd gzeof_def gzerror_def Let_def)
  next
    case eof
    have rd: "gzread f (fr_buffer fr) (chunk - 1) = (int (length got), buf1,
        f\<lparr>gz_pending := drop (nat (chunk - 1)) (gz_pending f), gz_err := gz_fault f,
           gz_past := True\<rparr>)"
      using eof nf pos by (simp add: gzread_def Let_def got_def[symmetric] buf1_def)
    have "int (length got) < chunk - 1" using eof pos by simp
    then show ?thesis using eof
      by (subst decompress_loop.simps)
         (simp add: rd gzeof_def gzerror_def Let_def)
  next
    case more
    define f1 where "f1 = f\<lparr>gz_pending := drop (nat (chunk - 1)) (gz_pending f)\<rparr>"
    define fr1 where "fr1 = poke (fr\<lparr>fr_buffer := buf1\<rparr>) (int (length got)) (CHR 0x00)"
    have rd: "gzread f (fr_buffer fr) (chunk - 1) = (int (length got), buf1, f1)"
      using more nf pos by (simp add: gzread_def Let_def got_def[symmetric] buf1_def f1_def)
    have full: "int (length got) = chunk - 1" using more gle pos by simp
    have ne: "gz_pending f \<noteq> []" using full pos by (auto simp add: got_def)
    have smaller: "length (gz_pending f1) < length (gz_pending f)"
      using ne pos by (simp add: f1_def)
    have e1: "gz_err f1 = 0" "\<not> gz_past f1" "gz_fault f1 = gz_fault f"
      using less.prems by (simp_all add: f1_def)
    define out1 where "out1 = g_string_printf_s out (fr_buffer fr1)"
    have step: "decompress_loop chunk fr f out idx
        = decompress_loop chunk fr1 f1 out1 (idx @ [int (length got)])"
      using full by (subst decompress_loop.simps)
         (simp add: rd Let_def out1_def fr1_def)
    from less.hyps[OF smaller \<open>2 \<le> chunk\<close> e1(1) e1(2), of fr1 out1 "idx @ [int (length got)]"]
    obtain out' idx' fr' f' where r:
        "decompress_loop chunk fr1 f1 out1 (idx @ [int (length got)])
          = Some (if gz_fatal (gz_fault f1) then FALSE else TRUE, out',
                  (idx @ [int (length got)]) @ idx', fr', f')"
        "\<forall>i\<in>set idx'. - 1 \<le> i \<and> i \<le> chunk - 1"
        "\<not> gz_fatal (gz_fault f1) \<longrightarrow> (\<forall>i\<in>set idx'. 0 \<le> i)"
        "gz_fatal (gz_fault f1) \<longrightarrow> - 1 \<in> set idx'"
        "gzerror f' = gz_fault f1"
        "gzeof f' \<longleftrightarrow> \<not> gz_fatal (gz_fault f1)"
      by blast
    show ?thesis
      apply (rule exI[of _ out'])
      apply (rule exI[of _ "int (length got) # idx'"])
      apply (rule exI[of _ fr'])
      apply (rule exI[of _ f'])
      using step r e1 gle by simp
  qed
qed

text \<open>A read that comes up short at the end of the input, of a complete gzip stream
  (\<open>fault = 0\<close>) or of one that is cut off (\<open>fault = Z_BUF_ERROR\<close>): the loop ends with
  \<^verbatim>\<open>TRUE\<close>.\<close>

lemma decompress_loop_short_read:
  assumes "int (length bytes) < chunk - 1" "length (fr_buffer fr) = nat chunk"
    and "\<not> gz_fatal fault"
  shows "decompress_loop chunk fr (gz_stream bytes fault) out idx
           = Some (TRUE, c_str bytes, idx @ [int (length bytes)],
                   poke (fr\<lparr>fr_buffer := bytes @ drop (length bytes) (fr_buffer fr)\<rparr>)
                     (int (length bytes)) (CHR 0x00),
                   \<lparr>gz_pending = [], gz_fault = fault, gz_err = fault, gz_past = True\<rparr>)"
proof -
  have l: "length bytes < length (fr_buffer fr)" using assms by simp
  have s: "length bytes < nat (chunk - 1)" using assms by simp
  have t: "take (nat (chunk - 1)) bytes = bytes" using s by simp
  have p: "0 < chunk - 1" using assms by simp
  have rd: "gzread (gz_stream bytes fault) (fr_buffer fr) (chunk - 1)
      = (int (length bytes), bytes @ drop (length bytes) (fr_buffer fr),
         \<lparr>gz_pending = [], gz_fault = fault, gz_err = fault, gz_past = True\<rparr>)"
    using s t p assms(3) by (simp add: gzread_def gz_stream_def gz_fatal_def Let_def)
  show ?thesis
    using assms(1) c_str_poke[OF l, of fr]
    by (subst decompress_loop.simps)
       (simp add: rd gzeof_def Let_def g_string_printf_s_def)
qed

text \<open>A read that fills the chunk: the loop goes on with the rest of the stream, and the
  output it carries on is this chunk alone.\<close>

lemma decompress_loop_full_read:
  assumes "2 \<le> chunk" "length a = nat (chunk - 1)"
  shows "decompress_loop chunk fr (gz_stream (a @ rest) fault) out idx
           = decompress_loop chunk
               (poke (fr\<lparr>fr_buffer := a @ drop (length a) (fr_buffer fr)\<rparr>) (chunk - 1) (CHR 0x00))
               (gz_stream rest fault)
               (c_str (fr_buffer
                  (poke (fr\<lparr>fr_buffer := a @ drop (length a) (fr_buffer fr)\<rparr>) (chunk - 1)
                     (CHR 0x00))))
               (idx @ [chunk - 1])"
proof -
  have rd: "gzread (gz_stream (a @ rest) fault) (fr_buffer fr) (chunk - 1)
      = (chunk - 1, a @ drop (length a) (fr_buffer fr), gz_stream rest fault)"
    using assms by (simp add: gzread_def gz_stream_def gz_fatal_def Let_def)
  show ?thesis
    by (subst decompress_loop.simps, simp only: rd)
       (simp add: Let_def g_string_printf_s_def)
qed

text \<open>A read that meets an error, after the bytes the stream still had: \<^verbatim>\<open>gzread\<close>
  returns -1 and the terminator goes to the byte in front of the array.\<close>

lemma decompress_loop_error_read:
  assumes "int (length bytes) < chunk - 1" "gz_fatal fault"
  shows "decompress_loop chunk fr (gz_stream bytes fault) out idx
           = Some (FALSE, c_str (bytes @ drop (length bytes) (fr_buffer fr)), idx @ [- 1],
                   \<lparr>fr_outside = (fr_outside fr)(- 1 := CHR 0x00),
                    fr_buffer = bytes @ drop (length bytes) (fr_buffer fr)\<rparr>,
                   \<lparr>gz_pending = [], gz_fault = fault, gz_err = fault, gz_past = False\<rparr>)"
proof -
  have s: "length bytes < nat (chunk - 1)" using assms by simp
  have t: "take (nat (chunk - 1)) bytes = bytes" using s by simp
  have p: "0 < chunk - 1" using assms by simp
  have rd: "gzread (gz_stream bytes fault) (fr_buffer fr) (chunk - 1)
      = (- 1, bytes @ drop (length bytes) (fr_buffer fr),
         \<lparr>gz_pending = [], gz_fault = fault, gz_err = fault, gz_past = False\<rparr>)"
    using s t p assms(2) by (simp add: gzread_def gz_stream_def gz_fatal_def Let_def)
  have "fault \<noteq> 0" using assms by (simp add: gz_fatal_def)
  then show ?thesis using p
    by (subst decompress_loop.simps)
       (simp add: rd gzeof_def gzerror_def Let_def g_string_printf_s_def poke_def)
qed

text \<open>
  What \<^verbatim>\<open>decompress\<close> returns, for every stream: \<^verbatim>\<open>FALSE\<close> exactly when the stream ends
  with an error on which \<^verbatim>\<open>gzread\<close> gives up, which is exactly when a read returned
  -1. An input that is cut off is not among these errors: the function returns
  \<^verbatim>\<open>TRUE\<close> while \<^verbatim>\<open>gzerror\<close> gives \<^verbatim>\<open>Z_BUF_ERROR\<close>.
\<close>

lemma decompress_false_iff_fatal:
  assumes "2 \<le> CHUNK cfg"
  shows "\<exists>ret out idx fr input1.
           decompress cfg junk (gz_stream bytes fault) output = Some (ret, out, idx, fr, input1)
         \<and> (ret = FALSE \<longleftrightarrow> gz_fatal fault) \<and> (ret = TRUE \<longleftrightarrow> \<not> gz_fatal fault)
         \<and> (ret = FALSE \<longleftrightarrow> - 1 \<in> set idx)
         \<and> gzerror input1 = fault
         \<and> (gzeof input1 \<longleftrightarrow> \<not> gz_fatal fault)"
proof -
  have g: "gz_err (gz_stream bytes fault) = 0" "\<not> gz_past (gz_stream bytes fault)"
       "gz_fault (gz_stream bytes fault) = fault"
    by (simp_all add: gz_stream_def)
  from decompress_loop_returns[OF assms g(1) g(2), of junk "output" "[]"]
  obtain out idx fr input1 where r:
      "decompress_loop (CHUNK cfg) junk (gz_stream bytes fault) output []
         = Some (if gz_fatal fault then FALSE else TRUE, out, idx, fr, input1)"
      "\<not> gz_fatal fault \<longrightarrow> (\<forall>i\<in>set idx. 0 \<le> i)"
      "gz_fatal fault \<longrightarrow> - 1 \<in> set idx"
      "gzerror input1 = fault"
      "gzeof input1 \<longleftrightarrow> \<not> gz_fatal fault"
    using g(3) by auto
  have i: "(if gz_fatal fault then FALSE else TRUE) = FALSE \<longleftrightarrow> - 1 \<in> set idx"
    using r(2,3) by (auto simp add: TRUE_def FALSE_def)
  have f: "(if gz_fatal fault then FALSE else TRUE) = FALSE \<longleftrightarrow> gz_fatal fault"
    by (simp add: TRUE_def FALSE_def)
  have t: "(if gz_fatal fault then FALSE else TRUE) = TRUE \<longleftrightarrow> \<not> gz_fatal fault"
    by (simp add: TRUE_def FALSE_def)
  show ?thesis
    unfolding decompress_def
    apply (rule exI[of _ "if gz_fatal fault then FALSE else TRUE"])
    apply (rule exI[of _ out])
    apply (rule exI[of _ idx])
    apply (rule exI[of _ fr])
    apply (rule exI[of _ input1])
    using r(1) r(4) r(5) i f t by simp
qed

text \<open>
  C8. \<^verbatim>\<open>decompress\<close> does not fail on every stream that reports an error before the
  end of the gzip stream. For an input that is cut off in the middle of the gzip
  stream, here after the 15 bytes \<^verbatim>\<open>-----BEGIN CERT\<close> of the content, \<^verbatim>\<open>gzread\<close> returns
  the bytes it has and sets the end-of-file indicator; the loop tests \<^verbatim>\<open>gzeof\<close> first
  and leaves with \<^verbatim>\<open>ret\<close> still \<^verbatim>\<open>TRUE\<close>, so \<^verbatim>\<open>gzerror\<close>, which gives \<^verbatim>\<open>Z_BUF_ERROR\<close>, is
  never asked. The function returns \<^verbatim>\<open>TRUE\<close> with the part of the content as output,
  the same return value and output as for a complete stream with that content.
\<close>

theorem decompress_accepts_truncated_stream:
  "(\<exists>fr input1.
      decompress sample_macros sample_stack (gz_stream ''-----BEGIN CERT'' Z_BUF_ERROR) []
        = Some (TRUE, ''-----BEGIN CERT'', [15], fr, input1)
    \<and> gzeof input1 \<and> gzerror input1 = Z_BUF_ERROR \<and> gzerror input1 = - 5)
   \<and> (\<exists>fr input1.
      decompress sample_macros sample_stack (gz_stream ''-----BEGIN CERT'' 0) []
        = Some (TRUE, ''-----BEGIN CERT'', [15], fr, input1)
    \<and> gzeof input1 \<and> gzerror input1 = 0)"
  by (simp add: decompress_def sample_macros_def sample_stack_def decompress_loop_short_read
        gz_fatal_def c_str_def gzeof_def gzerror_def Z_BUF_ERROR_def)

text \<open>
  The indices of the terminator: none lies above \<open>CHUNK - 1\<close>, the last element of the
  array, and none below -1; on a stream whose reads report no error none lies below
  0.
\<close>

lemma terminator_index_bounds:
  assumes "2 \<le> CHUNK cfg"
  shows "\<exists>ret out idx fr input1.
           decompress cfg junk (gz_stream bytes fault) output = Some (ret, out, idx, fr, input1)
         \<and> (\<forall>i\<in>set idx. - 1 \<le> i \<and> i \<le> CHUNK cfg - 1 \<and> (\<not> gz_fatal fault \<longrightarrow> 0 \<le> i))"
proof -
  have "gz_err (gz_stream bytes fault) = 0" "\<not> gz_past (gz_stream bytes fault)"
       "gz_fault (gz_stream bytes fault) = fault"
    by (simp_all add: gz_stream_def)
  with decompress_loop_returns[OF assms, of "gz_stream bytes fault" junk "output" "[]"]
  show ?thesis
    by (auto simp add: decompress_def)
qed

text \<open>
  C10. The index of the terminator is not always within the bounds of the buffer. On
  a stream whose first read reports an error (here the zlib error -3, a data error),
  \<^verbatim>\<open>gzread\<close> returns -1 and \<^verbatim>\<open>buffer[bytes_read] = '\0'\<close> stores at index -1: the byte
  in front of the array, which belongs to another object and was not 0, is 0
  afterwards. The function goes on, prints what the array held before the call, and
  returns \<^verbatim>\<open>FALSE\<close>. On a stream of \<^verbatim>\<open>CHUNK - 1\<close> bytes the first read fills the chunk
  and the terminator goes to index \<^verbatim>\<open>CHUNK - 1\<close>, the last element of the array.
\<close>

theorem terminator_index_on_error:
  "decompress sample_macros sample_stack (gz_stream [] (- 3)) []
     = Some (FALSE, c_str (fr_buffer sample_stack), [- 1],
             sample_stack\<lparr>fr_outside := (fr_outside sample_stack)(- 1 := CHR 0x00)\<rparr>,
             \<lparr>gz_pending = [], gz_fault = - 3, gz_err = - 3, gz_past = False\<rparr>)
   \<and> c_str (fr_buffer sample_stack) = ''stale''
   \<and> fr_outside sample_stack (- 1) = CHR ''y''
   \<and> (\<exists>fr input1.
        decompress sample_macros sample_stack (gz_stream (replicate 16383 (CHR ''a'')) 0) []
          = Some (TRUE, [], [16383, 0], fr, input1))"
proof -
  have a: "\<exists>fr input1.
        decompress sample_macros sample_stack (gz_stream (replicate 16383 (CHR ''a'')) 0) []
          = Some (TRUE, [], [16383, 0], fr, input1)"
    using decompress_loop_full_read[of 16384 "replicate 16383 (CHR ''a'')" sample_stack "[]" 0 "[]" "[]"]
    by (simp add: decompress_def sample_macros_def sample_stack_def
          decompress_loop_short_read c_str_def gz_fatal_def)
  have b: "decompress sample_macros sample_stack (gz_stream [] (- 3)) []
     = Some (FALSE, c_str (fr_buffer sample_stack), [- 1],
             sample_stack\<lparr>fr_outside := (fr_outside sample_stack)(- 1 := CHR 0x00)\<rparr>,
             \<lparr>gz_pending = [], gz_fault = - 3, gz_err = - 3, gz_past = False\<rparr>)"
    by (simp add: decompress_def sample_macros_def decompress_loop_error_read gz_fatal_def
          Z_BUF_ERROR_def)
  have c: "c_str (fr_buffer sample_stack) = ''stale''" "fr_outside sample_stack (- 1) = CHR ''y''"
    by (simp_all add: sample_stack_def c_str_def)
  show ?thesis using a b c by simp
qed

text \<open>
  An error behind some data, with a chunk of 8 bytes: the first read returns 7 bytes,
  the second copies the 4 bytes that are left, meets the error and returns -1. The
  array then holds these 4 bytes in front of what the first read left, and that is
  the output.
\<close>

lemma decompress_error_after_data:
  "decompress (sample_macros\<lparr>CHUNK := 8\<rparr>)
       \<lparr>fr_outside = (\<lambda>i. CHR ''y''), fr_buffer = replicate 8 (CHR ''x'')\<rparr>
       (gz_stream ''certificate'' (- 3)) []
     = Some (FALSE, ''cateifi'', [7, - 1],
             \<lparr>fr_outside = (\<lambda>i. CHR ''y'')(- 1 := CHR 0x00),
              fr_buffer = ''cateifi'' @ [CHR 0x00]\<rparr>,
             \<lparr>gz_pending = [], gz_fault = - 3, gz_err = - 3, gz_past = False\<rparr>)"
  using decompress_loop_full_read[of 8 "''certifi''"
          "\<lparr>fr_outside = (\<lambda>i. CHR ''y''), fr_buffer = replicate 8 (CHR ''x'')\<rparr>"
          "''cate''" "- 3" "[]" "[]"]
  by (simp add: decompress_def decompress_loop_error_read gz_fatal_def Z_BUF_ERROR_def
        poke_def c_str_def)

text \<open>
  What the output is when the first read returns the whole content: the content up
  to its first NUL byte, which is all of it when it holds no NUL byte.
\<close>

lemma decompress_single_read:
  assumes "int (length bytes) < CHUNK cfg - 1" "length (fr_buffer junk) = nat (CHUNK cfg)"
  shows "(\<exists>fr input1. decompress cfg junk (gz_stream bytes 0) output
           = Some (TRUE, takeWhile (\<lambda>c. c \<noteq> CHR 0x00) bytes, [int (length bytes)], fr, input1))
         \<and> (CHR 0x00 \<notin> set bytes \<longrightarrow> takeWhile (\<lambda>c. c \<noteq> CHR 0x00) bytes = bytes)"
  using decompress_loop_short_read[OF assms, of 0 "output" "[]"]
  by (auto simp add: decompress_def c_str_def gz_fatal_def)

text \<open>
  A content of two chunks, for any chunk size: the second call of \<^verbatim>\<open>g_string_printf\<close>
  replaces what the first one stored, and the output is the second chunk alone.
\<close>

lemma decompress_two_reads:
  assumes "2 \<le> CHUNK cfg" "length a = nat (CHUNK cfg - 1)"
    and "int (length b) < CHUNK cfg - 1" "length (fr_buffer junk) = nat (CHUNK cfg)"
  shows "\<exists>fr input1. decompress cfg junk (gz_stream (a @ b) 0) output
           = Some (TRUE, c_str b, [CHUNK cfg - 1, int (length b)], fr, input1)"
  using assms
  by (simp add: decompress_def decompress_loop_full_read decompress_loop_short_read
        gz_fatal_def)

text \<open>
  C1. The output is not the concatenation of the chunks. For a content of 16384
  bytes without a NUL byte, read in two chunks, \<^verbatim>\<open>decompress\<close> returns \<^verbatim>\<open>TRUE\<close> and the
  output is the last byte alone: each \<^verbatim>\<open>g_string_printf\<close> replaces the output with the
  chunk just read. The same call prints the chunk with \<^verbatim>\<open>"%s"\<close>, so a chunk is also
  cut at its first NUL byte.
\<close>

theorem decompress_keeps_last_chunk_only:
  "(\<exists>fr input1.
      decompress sample_macros sample_stack
          (gz_stream (replicate 16383 (CHR ''a'') @ ''b'') 0) []
        = Some (TRUE, ''b'', [16383, 1], fr, input1)
    \<and> gzeof input1 \<and> gzerror input1 = 0)
   \<and> (\<exists>fr input1.
      decompress sample_macros sample_stack (gz_stream [CHR ''a'', CHR 0x00, CHR ''b''] 0) []
        = Some (TRUE, ''a'', [3], fr, input1)
    \<and> gzeof input1 \<and> gzerror input1 = 0)"
  by (simp add: decompress_def sample_macros_def sample_stack_def
        decompress_loop_full_read decompress_loop_short_read c_str_def gz_fatal_def
        gzeof_def gzerror_def)

section \<open>Properties of \<^verbatim>\<open>getActive\<close>\<close>

lemma installed_loop_iff:
  "installed_loop pkg installedPackages \<longleftrightarrow> (\<exists>q\<in>set installedPackages. nevra pkg = nevra q)"
  by (induction installedPackages) auto

lemma available_loop_found:
  "fst (available_loop rid avail inst) \<longleftrightarrow> (\<exists>p\<in>set avail. installed_loop p inst)"
  by (induction avail) (auto split: prod.splits)

lemma available_loop_visits:
  "snd (available_loop rid avail inst)
     = map (\<lambda>p. Visit rid (nevra p))
         (takeWhile (\<lambda>p. \<not> installed_loop p inst) avail
          @ take 1 (dropWhile (\<lambda>p. \<not> installed_loop p inst) avail))"
  by (induction avail) (auto split: prod.splits)

lemma active_loop_active:
  "fst (active_loop ctx inst rps)
     = filter (\<lambda>rp. \<exists>p\<in>set (hy_query_reponame (sack ctx) (repo_id (repo rp))).
                       installed_loop p inst) rps"
proof (induction rps)
  case Nil
  then show ?case by simp
next
  case (Cons rp rps)
  then show ?case
    using available_loop_found[of "repo_id (repo rp)"
            "hy_query_reponame (sack ctx) (repo_id (repo rp))" inst]
    by (auto simp add: Let_def split: prod.splits)
qed

lemma active_loop_events:
  "snd (active_loop ctx inst rps)
     = concat (map (\<lambda>rp. QueryAvailable (repo_id (repo rp))
                 # map (\<lambda>p. Visit (repo_id (repo rp)) (nevra p))
                     (takeWhile (\<lambda>p. \<not> installed_loop p inst)
                        (hy_query_reponame (sack ctx) (repo_id (repo rp)))
                      @ take 1 (dropWhile (\<lambda>p. \<not> installed_loop p inst)
                        (hy_query_reponame (sack ctx) (repo_id (repo rp)))))) rps)"
proof (induction rps)
  case Nil
  then show ?case by simp
next
  case (Cons rp rps)
  then show ?case
    using available_loop_visits[of "repo_id (repo rp)"
            "hy_query_reponame (sack ctx) (repo_id (repo rp))" inst]
    by (auto simp add: Let_def split: prod.splits)
qed

lemma active_loop_no_installed_query:
  "QueryInstalled \<notin> set (snd (active_loop ctx inst rps))"
  by (auto simp add: active_loop_events)

text \<open>
  C2. With the sack for the rpm database at hand, an entry of \<^verbatim>\<open>repoAndProductIds\<close> is
  put into \<^verbatim>\<open>activeRepoAndProductIds\<close> iff one of the packages available from its
  repository has the nevra of an installed package; the installed packages are
  queried once, before the loop, and the available ones once for each entry; for each
  entry the scan takes up the available packages in order up to and including the
  first one that is installed, and none after it.
\<close>

theorem getActive_marks_active:
  assumes "rpmdb_sack ctx = Some rpmDbSack"
    and "installed = hy_query_reponame rpmDbSack HY_SYSTEM_REPO_NAME"
    and "getActive ctx rps = (active, evs, lg)"
  shows "(\<forall>rp\<in>set rps. rp \<in> set active \<longleftrightarrow>
            (\<exists>p\<in>set (sack ctx). reponame p = repo_id (repo rp)
                \<and> (\<exists>q\<in>set installed. nevra p = nevra q)))
       \<and> length (filter (\<lambda>e. e = QueryInstalled) evs) = 1
       \<and> evs = QueryInstalled #
           concat (map (\<lambda>rp. QueryAvailable (repo_id (repo rp))
                 # map (\<lambda>p. Visit (repo_id (repo rp)) (nevra p))
                     (takeWhile (\<lambda>p. \<not> (\<exists>q\<in>set installed. nevra p = nevra q))
                        (filter (\<lambda>p. reponame p = repo_id (repo rp)) (sack ctx))
                      @ take 1 (dropWhile (\<lambda>p. \<not> (\<exists>q\<in>set installed. nevra p = nevra q))
                        (filter (\<lambda>p. reponame p = repo_id (repo rp)) (sack ctx))))) rps)"
proof -
  obtain act ev where al: "active_loop ctx installed rps = (act, ev)"
    by (cases "active_loop ctx installed rps")
  have r: "active = act" "evs = QueryInstalled # ev"
    using assms al by (simp_all add: getActive_def Let_def)
  have a: "act = filter (\<lambda>rp. \<exists>p\<in>set (hy_query_reponame (sack ctx) (repo_id (repo rp))).
                       installed_loop p installed) rps"
    using active_loop_active[of ctx installed rps] al by simp
  have e: "ev = snd (active_loop ctx installed rps)" using al by simp
  have n: "QueryInstalled \<notin> set ev"
    using active_loop_no_installed_query[of ctx installed rps] al by simp
  have c: "length (filter (\<lambda>e. e = QueryInstalled) evs) = 1"
    using n r by (auto simp add: filter_empty_conv)
  have m: "\<forall>rp\<in>set rps. rp \<in> set active \<longleftrightarrow>
            (\<exists>p\<in>set (sack ctx). reponame p = repo_id (repo rp)
                \<and> (\<exists>q\<in>set installed. nevra p = nevra q))"
    using r a by (auto simp add: hy_query_reponame_def installed_loop_iff)
  have t: "evs = QueryInstalled #
           concat (map (\<lambda>rp. QueryAvailable (repo_id (repo rp))
                 # map (\<lambda>p. Visit (repo_id (repo rp)) (nevra p))
                     (takeWhile (\<lambda>p. \<not> (\<exists>q\<in>set installed. nevra p = nevra q))
                        (filter (\<lambda>p. reponame p = repo_id (repo rp)) (sack ctx))
                      @ take 1 (dropWhile (\<lambda>p. \<not> (\<exists>q\<in>set installed. nevra p = nevra q))
                        (filter (\<lambda>p. reponame p = repo_id (repo rp)) (sack ctx))))) rps)"
    using r e by (simp add: active_loop_events hy_query_reponame_def installed_loop_iff)
  show ?thesis using m c t by blast
qed

lemma sample_getActive:
  "getActive sample_context [sample_entry_a, sample_entry_b]
     = ([sample_entry_a],
        [QueryInstalled, QueryAvailable ''repo-a'', Visit ''repo-a'' ''foo-0:1.0-1.x86_64'',
         QueryAvailable ''repo-b'', Visit ''repo-b'' ''bar-0:2.0-1.noarch''], [])"
  by (simp add: getActive_def sample_context_def sample_entry_a_def sample_entry_b_def
        sample_repo_a_def sample_repo_b_def hy_query_reponame_def HY_SYSTEM_REPO_NAME_def Let_def)

theorem getActive_marks_active_witness:
  "rpmdb_sack sample_context = Some [\<lparr>nevra = ''foo-0:1.0-1.x86_64'', reponame = ''@System''\<rparr>]
   \<and> getActive sample_context [sample_entry_a, sample_entry_b]
     = ([sample_entry_a],
        [QueryInstalled, QueryAvailable ''repo-a'', Visit ''repo-a'' ''foo-0:1.0-1.x86_64'',
         QueryAvailable ''repo-b'', Visit ''repo-b'' ''bar-0:2.0-1.noarch''], [])
   \<and> sample_entry_a \<in> set [sample_entry_a]
   \<and> sample_entry_b \<notin> set [sample_entry_a]
   \<and> (\<exists>p\<in>set (sack sample_context). reponame p = repo_id (repo sample_entry_a)
          \<and> (\<exists>q\<in>set [\<lparr>nevra = ''foo-0:1.0-1.x86_64'', reponame = ''@System''\<rparr>].
                nevra p = nevra q))"
proof -
  have h1: "rpmdb_sack sample_context
      = Some [\<lparr>nevra = ''foo-0:1.0-1.x86_64'', reponame = ''@System''\<rparr>]"
    by (simp add: sample_context_def)
  have h2: "[\<lparr>nevra = ''foo-0:1.0-1.x86_64'', reponame = ''@System''\<rparr>]
      = hy_query_reponame [\<lparr>nevra = ''foo-0:1.0-1.x86_64'', reponame = ''@System''\<rparr>]
          HY_SYSTEM_REPO_NAME"
    by (simp add: hy_query_reponame_def HY_SYSTEM_REPO_NAME_def)
  have ne: "sample_entry_b \<noteq> sample_entry_a"
    by (simp add: sample_entry_a_def sample_entry_b_def)
  from getActive_marks_active[OF h1 h2 sample_getActive]
  have m: "\<forall>rp\<in>set [sample_entry_a, sample_entry_b]. rp \<in> set [sample_entry_a] \<longleftrightarrow>
            (\<exists>p\<in>set (sack sample_context). reponame p = repo_id (repo rp)
                \<and> (\<exists>q\<in>set [\<lparr>nevra = ''foo-0:1.0-1.x86_64'', reponame = ''@System''\<rparr>].
                      nevra p = nevra q))"
    by blast
  then have "\<exists>p\<in>set (sack sample_context). reponame p = repo_id (repo sample_entry_a)
          \<and> (\<exists>q\<in>set [\<lparr>nevra = ''foo-0:1.0-1.x86_64'', reponame = ''@System''\<rparr>].
                nevra p = nevra q)"
    by simp
  then show ?thesis using h1 sample_getActive ne by simp
qed

section \<open>Properties of \<^verbatim>\<open>findProductId\<close>\<close>

text \<open>The loop over the indices from \<open>i\<close> on finds the first extension from \<open>i\<close> on
  whose text starts with the prefix, and looks at no extension behind it.\<close>

lemma ext_loop_first_match:
  "ext_loop cfg x509 [i..<length (extensions x509)] result =
     (case find (\<lambda>e. g_str_has_prefix (OBJ_obj2txt (MAX_BUFF cfg) e) (REDHAT_PRODUCT_OID cfg))
             (drop i (extensions x509)) of
        None \<Rightarrow> (1, False, result, [])
      | Some e \<Rightarrow>
          if 9 < length (g_strsplit (OBJ_obj2txt (MAX_BUFF cfg) e) (CHR ''.''))
          then (1, True, g_strsplit (OBJ_obj2txt (MAX_BUFF cfg) e) (CHR ''.'') ! 9,
                [(Debug, ''ID of product certificate'')])
          else (- 1, True, result,
                [(Error, ''Product certificate does not contain required ID'')]))"
proof (induction "length (extensions x509) - i" arbitrary: i)
  case 0
  then show ?case by simp
next
  case (Suc n)
  then have lt: "i < length (extensions x509)" by simp
  have n: "n = length (extensions x509) - Suc i" using Suc.hyps(2) by simp
  have u: "[i..<length (extensions x509)] = i # [Suc i..<length (extensions x509)]"
    using lt by (simp add: upt_conv_Cons)
  have d: "drop i (extensions x509) = extensions x509 ! i # drop (Suc i) (extensions x509)"
    using lt by (simp add: Cons_nth_drop_Suc)
  show ?case
    using Suc.hyps(1)[OF n] lt
    by (simp add: u d X509_get_ext_def Let_def)
qed

lemma find_first_match:
  "\<forall>e\<in>set before. \<not> P e \<Longrightarrow> P x \<Longrightarrow> find P (before @ x # behind) = Some x"
  by (induction before) auto

lemma findProductId_parsed:
  assumes "BIO_new_mem_buf ssl certContent = Some bio" "PEM_read_bio_X509 ssl bio = Some x509"
  shows "findProductId ssl cfg certContent result =
     (case find (\<lambda>e. g_str_has_prefix (OBJ_obj2txt (MAX_BUFF cfg) e) (REDHAT_PRODUCT_OID cfg))
             (extensions x509) of
        None \<Rightarrow> (- 1, result,
                 [(Warn, ''Red Hat Product OID: '' @ REDHAT_PRODUCT_OID cfg @ '' not found'')])
      | Some e \<Rightarrow>
          if 9 < length (g_strsplit (OBJ_obj2txt (MAX_BUFF cfg) e) (CHR ''.''))
          then (1, g_strsplit (OBJ_obj2txt (MAX_BUFF cfg) e) (CHR ''.'') ! 9,
                [(Debug, ''ID of product certificate'')])
          else (- 1, result,
                [(Error, ''Product certificate does not contain required ID'')]))"
  using assms ext_loop_first_match[of cfg x509 0 result]
  by (simp add: findProductId_def X509_get_ext_count_def split: option.splits)

text \<open>The text that \<^verbatim>\<open>OBJ_obj2txt\<close> stores is the whole text when that fits the buffer,
  and it starts with a prefix only if the whole text does.\<close>

lemma OBJ_obj2txt_fits:
  "int (length (obj ext)) < buf_len \<Longrightarrow> OBJ_obj2txt buf_len ext = obj ext"
  by (simp add: OBJ_obj2txt_def)

lemma OBJ_obj2txt_prefix:
  assumes "g_str_has_prefix (OBJ_obj2txt buf_len ext) pre"
  shows "g_str_has_prefix (obj ext) pre"
proof -
  have t: "take (length pre) (take (nat (buf_len - 1)) (obj ext)) = pre"
    using assms by (simp add: g_str_has_prefix_def OBJ_obj2txt_def)
  then have "length pre = min (length pre) (min (nat (buf_len - 1)) (length (obj ext)))"
    by (metis length_take min.commute)
  then have "length pre \<le> nat (buf_len - 1)" by simp
  then have "take (length pre) (take (nat (buf_len - 1)) (obj ext)) = take (length pre) (obj ext)"
    by (simp add: min_def)
  then show ?thesis using t by (simp add: g_str_has_prefix_def)
qed

text \<open>Splitting a text that starts with a run of characters other than the delimiter.\<close>

lemma pieces_not_Nil: "pieces d s \<noteq> []"
  by (induction s) (auto split: list.splits)

lemma pieces_run:
  "d \<notin> set run \<Longrightarrow> pieces d (run @ rest) = (run @ hd (pieces d rest)) # tl (pieces d rest)"
proof (induction run)
  case Nil
  then show ?case using pieces_not_Nil[of d rest] by simp
next
  case (Cons c run)
  then show ?case by auto
qed

lemma pieces_run_end: "d \<notin> set run \<Longrightarrow> pieces d run = [run]"
  using pieces_run[of d run "[]"] by simp

lemma long_oid_split:
  "g_strsplit long_oid (CHR ''.'')
     = [''1'', ''3'', ''6'', ''1'', ''4'', ''1'', ''2312'', ''9'', ''1'',
        replicate 300 (CHR ''7''), ''1'']"
  by (simp add: long_oid_def g_strsplit_def pieces_run)

lemma long_oid_early_split:
  "g_strsplit long_oid_early (CHR ''.'')
     = [''1'', ''3'', ''6'', ''1'', ''4'', ''1'', ''2312'', ''9'',
        replicate 300 (CHR ''1''), ''69'', ''1'']"
  by (simp add: long_oid_early_def g_strsplit_def pieces_run)

text \<open>
  C3 (as amended). For a certificate that parses, the extensions are scanned in
  order. When the first extension whose object identifier starts, in its textual
  form, with the vendor prefix has at least 10 components, and that textual form has
  fewer than \<^verbatim>\<open>MAX_BUFF\<close> characters, so that \<^verbatim>\<open>OBJ_obj2txt\<close> renders all of it into the
  buffer, the function returns 1 and the result is the component at index 9.
  Extensions behind the first match are not looked at, whatever they hold.
\<close>

theorem findProductId_first_match:
  assumes "BIO_new_mem_buf ssl certContent = Some bio"
    and "PEM_read_bio_X509 ssl bio = Some x509"
    and "extensions x509 = before @ ext # behind"
    and "\<forall>e\<in>set before. \<not> g_str_has_prefix (obj e) (REDHAT_PRODUCT_OID cfg)"
    and "g_str_has_prefix (obj ext) (REDHAT_PRODUCT_OID cfg)"
    and "10 \<le> length (g_strsplit (obj ext) (CHR ''.''))"
    and "int (length (obj ext)) < MAX_BUFF cfg"
  shows "\<exists>lg. findProductId ssl cfg certContent result
           = (1, g_strsplit (obj ext) (CHR ''.'') ! 9, lg)"
proof -
  have e: "OBJ_obj2txt (MAX_BUFF cfg) ext = obj ext"
    using assms(7) by (rule OBJ_obj2txt_fits)
  have b: "\<forall>e\<in>set before.
             \<not> g_str_has_prefix (OBJ_obj2txt (MAX_BUFF cfg) e) (REDHAT_PRODUCT_OID cfg)"
    using assms(4) OBJ_obj2txt_prefix by blast
  have "find (\<lambda>e. g_str_has_prefix (OBJ_obj2txt (MAX_BUFF cfg) e) (REDHAT_PRODUCT_OID cfg))
          (extensions x509) = Some ext"
    using assms(3,5) b e by (simp add: find_first_match)
  then show ?thesis
    using findProductId_parsed[OF assms(1,2), of cfg result] assms(6) e by simp
qed

text \<open>
  C6 (as amended). For a certificate that parses, the function returns -1 and
  leaves the result string as it was both when no extension starts with the vendor
  prefix and when the first one that does has fewer than 10 components. The two cases
  differ in the diagnostic alone: a warning that the OID was not found in the first,
  an error that the required ID is missing in the second.
\<close>

theorem findProductId_failures:
  assumes "BIO_new_mem_buf ssl certContent = Some bio"
    and "PEM_read_bio_X509 ssl bio = Some x509"
  shows "((\<forall>e\<in>set (extensions x509).
            \<not> g_str_has_prefix (OBJ_obj2txt (MAX_BUFF cfg) e) (REDHAT_PRODUCT_OID cfg))
          \<longrightarrow> findProductId ssl cfg certContent result
              = (- 1, result,
                 [(Warn, ''Red Hat Product OID: '' @ REDHAT_PRODUCT_OID cfg @ '' not found'')]))
       \<and> (\<forall>before ext behind.
            extensions x509 = before @ ext # behind
          \<and> (\<forall>e\<in>set before.
               \<not> g_str_has_prefix (OBJ_obj2txt (MAX_BUFF cfg) e) (REDHAT_PRODUCT_OID cfg))
          \<and> g_str_has_prefix (OBJ_obj2txt (MAX_BUFF cfg) ext) (REDHAT_PRODUCT_OID cfg)
          \<and> length (g_strsplit (OBJ_obj2txt (MAX_BUFF cfg) ext) (CHR ''.'')) < 10
          \<longrightarrow> findProductId ssl cfg certContent result
              = (- 1, result, [(Error, ''Product certificate does not contain required ID'')]))"
proof (intro conjI allI impI)
  assume "\<forall>e\<in>set (extensions x509).
            \<not> g_str_has_prefix (OBJ_obj2txt (MAX_BUFF cfg) e) (REDHAT_PRODUCT_OID cfg)"
  then have "find (\<lambda>e. g_str_has_prefix (OBJ_obj2txt (MAX_BUFF cfg) e) (REDHAT_PRODUCT_OID cfg))
          (extensions x509) = None"
    by (simp add: find_None_iff)
  then show "findProductId ssl cfg certContent result
              = (- 1, result,
                 [(Warn, ''Red Hat Product OID: '' @ REDHAT_PRODUCT_OID cfg @ '' not found'')])"
    using findProductId_parsed[OF assms, of cfg result] by simp
next
  fix before ext behind
  assume a: "extensions x509 = before @ ext # behind
          \<and> (\<forall>e\<in>set before.
               \<not> g_str_has_prefix (OBJ_obj2txt (MAX_BUFF cfg) e) (REDHAT_PRODUCT_OID cfg))
          \<and> g_str_has_prefix (OBJ_obj2txt (MAX_BUFF cfg) ext) (REDHAT_PRODUCT_OID cfg)
          \<and> length (g_strsplit (OBJ_obj2txt (MAX_BUFF cfg) ext) (CHR ''.'')) < 10"
  then have "find (\<lambda>e. g_str_has_prefix (OBJ_obj2txt (MAX_BUFF cfg) e) (REDHAT_PRODUCT_OID cfg))
          (extensions x509) = Some ext"
    by (simp add: find_first_match)
  then show "findProductId ssl cfg certContent result
              = (- 1, result, [(Error, ''Product certificate does not contain required ID'')])"
    using findProductId_parsed[OF assms, of cfg result] a by simp
qed

lemma sample_findProductId:
  "findProductId sample_ssl sample_macros ''PEM-69'' [] = (1, ''69'', [(Debug, ''ID of product certificate'')])"
  by (simp add: findProductId_def sample_ssl_def sample_macros_def sample_cert_def
        X509_get_ext_count_def X509_get_ext_def OBJ_obj2txt_def g_str_has_prefix_def
        g_strsplit_def Let_def upt_conv_Cons)

lemma sample_findProductId_plain:
  "findProductId sample_ssl sample_macros ''PEM-plain'' []
     = (- 1, [], [(Warn, ''Red Hat Product OID: 1.3.6.1.4.1.2312.9.1 not found'')])"
  by (simp add: findProductId_def sample_ssl_def sample_macros_def sample_cert_plain_def
        X509_get_ext_count_def X509_get_ext_def OBJ_obj2txt_def g_str_has_prefix_def
        g_strsplit_def Let_def upt_conv_Cons)

lemma sample_findProductId_short:
  "findProductId sample_ssl sample_macros ''PEM-short'' []
     = (- 1, [], [(Error, ''Product certificate does not contain required ID'')])"
  by (simp add: findProductId_def sample_ssl_def sample_macros_def sample_cert_short_def
        X509_get_ext_count_def X509_get_ext_def OBJ_obj2txt_def g_str_has_prefix_def
        g_strsplit_def Let_def upt_conv_Cons)

theorem findProductId_first_match_witness:
  "BIO_new_mem_buf sample_ssl ''PEM-69'' = Some ''PEM-69''
   \<and> PEM_read_bio_X509 sample_ssl ''PEM-69'' = Some sample_cert
   \<and> extensions sample_cert
       = [\<lparr>obj = ''2.5.29.19'', ext_value = []\<rparr>]
         @ \<lparr>obj = ''1.3.6.1.4.1.2312.9.1.69.1'', ext_value = ''Product''\<rparr>
         # [\<lparr>obj = ''1.3.6.1.4.1.2312.9.1.70.1'', ext_value = ''Other''\<rparr>]
   \<and> g_strsplit ''1.3.6.1.4.1.2312.9.1.69.1'' (CHR ''.'')
       = [''1'', ''3'', ''6'', ''1'', ''4'', ''1'', ''2312'', ''9'', ''1'', ''69'', ''1'']
   \<and> int (length ''1.3.6.1.4.1.2312.9.1.69.1'') < MAX_BUFF sample_macros
   \<and> (\<exists>lg. findProductId sample_ssl sample_macros ''PEM-69'' [] = (1, ''69'', lg))"
proof -
  have h1: "BIO_new_mem_buf sample_ssl ''PEM-69'' = Some ''PEM-69''"
    by (simp add: sample_ssl_def)
  have h2: "PEM_read_bio_X509 sample_ssl ''PEM-69'' = Some sample_cert"
    by (simp add: sample_ssl_def)
  have h3: "extensions sample_cert
       = [\<lparr>obj = ''2.5.29.19'', ext_value = []\<rparr>]
         @ \<lparr>obj = ''1.3.6.1.4.1.2312.9.1.69.1'', ext_value = ''Product''\<rparr>
         # [\<lparr>obj = ''1.3.6.1.4.1.2312.9.1.70.1'', ext_value = ''Other''\<rparr>]"
    by (simp add: sample_cert_def)
  have h4: "\<forall>e\<in>set [\<lparr>obj = ''2.5.29.19'', ext_value = []\<rparr>].
           \<not> g_str_has_prefix (obj e) (REDHAT_PRODUCT_OID sample_macros)"
    by (simp add: sample_macros_def g_str_has_prefix_def)
  have h5: "g_str_has_prefix
              (obj \<lparr>obj = ''1.3.6.1.4.1.2312.9.1.69.1'', ext_value = ''Product''\<rparr>)
              (REDHAT_PRODUCT_OID sample_macros)"
    by (simp add: sample_macros_def g_str_has_prefix_def)
  have sp: "g_strsplit ''1.3.6.1.4.1.2312.9.1.69.1'' (CHR ''.'')
       = [''1'', ''3'', ''6'', ''1'', ''4'', ''1'', ''2312'', ''9'', ''1'', ''69'', ''1'']"
    by (simp add: g_strsplit_def)
  have h6: "10 \<le> length (g_strsplit
              (obj \<lparr>obj = ''1.3.6.1.4.1.2312.9.1.69.1'', ext_value = ''Product''\<rparr>) (CHR ''.''))"
    by (simp add: sp)
  have h7: "int (length (obj \<lparr>obj = ''1.3.6.1.4.1.2312.9.1.69.1'', ext_value = ''Product''\<rparr>))
              < MAX_BUFF sample_macros"
    by (simp add: sample_macros_def)
  show ?thesis
    using h1 h2 h3 sp h7 findProductId_first_match[OF h1 h2 h3 h4 h5 h6 h7, of "[]"]
    by simp
qed

text \<open>
  Without the bound on the length the statement fails. With \<^verbatim>\<open>MAX_BUFF = 256\<close>, the
  object identifier \<^verbatim>\<open>1.3.6.1.4.1.2312.9.1.77...7.1\<close> with 300 digits 7 starts with the
  vendor prefix and has 11 components, but the function returns 1 with the first 234
  of the 300 digits, which is not the component at index 9. The object identifier
  \<^verbatim>\<open>1.3.6.1.4.1.2312.9.11...1.69.1\<close> with 300 digits 1 starts with the prefix and
  has 11 components, with 69 at index 9, but the function returns -1: the text it
  splits has 9 components.
\<close>

theorem findProductId_first_match_counterexample:
  "BIO_new_mem_buf sample_ssl_long ''PEM-long'' = Some ''PEM-long''
   \<and> PEM_read_bio_X509 sample_ssl_long ''PEM-long'' = Some sample_cert_long
   \<and> extensions sample_cert_long = [] @ \<lparr>obj = long_oid, ext_value = ''Product''\<rparr> # []
   \<and> g_str_has_prefix long_oid (REDHAT_PRODUCT_OID sample_macros)
   \<and> length (g_strsplit long_oid (CHR ''.'')) = 11
   \<and> g_strsplit long_oid (CHR ''.'') ! 9 = replicate 300 (CHR ''7'')
   \<and> findProductId sample_ssl_long sample_macros ''PEM-long'' []
       = (1, replicate 234 (CHR ''7''), [(Debug, ''ID of product certificate'')])
   \<and> replicate 234 (CHR ''7'') \<noteq> g_strsplit long_oid (CHR ''.'') ! 9
   \<and> PEM_read_bio_X509 sample_ssl_long ''PEM-long-early'' = Some sample_cert_long_early
   \<and> extensions sample_cert_long_early
       = [] @ \<lparr>obj = long_oid_early, ext_value = ''Product''\<rparr> # []
   \<and> g_str_has_prefix long_oid_early (REDHAT_PRODUCT_OID sample_macros)
   \<and> length (g_strsplit long_oid_early (CHR ''.'')) = 11
   \<and> g_strsplit long_oid_early (CHR ''.'') ! 9 = ''69''
   \<and> findProductId sample_ssl_long sample_macros ''PEM-long-early'' []
       = (- 1, [], [(Error, ''Product certificate does not contain required ID'')])"
proof -
  define cut where "cut = ''1.3.6.1.4.1.2312.9.1.'' @ replicate 234 (CHR ''7'')"
  define cut_early where "cut_early = ''1.3.6.1.4.1.2312.9.'' @ replicate 236 (CHR ''1'')"
  have p: "g_str_has_prefix long_oid (REDHAT_PRODUCT_OID sample_macros)"
      "g_str_has_prefix long_oid_early (REDHAT_PRODUCT_OID sample_macros)"
    by (simp_all add: long_oid_def long_oid_early_def sample_macros_def g_str_has_prefix_def)
  have c1: "OBJ_obj2txt (MAX_BUFF sample_macros) \<lparr>obj = long_oid, ext_value = ''Product''\<rparr> = cut"
    by (simp add: long_oid_def OBJ_obj2txt_def sample_macros_def cut_def)
  have c2: "g_str_has_prefix cut (REDHAT_PRODUCT_OID sample_macros)"
    by (simp add: sample_macros_def g_str_has_prefix_def cut_def)
  have c3: "g_strsplit cut (CHR ''.'')
     = [''1'', ''3'', ''6'', ''1'', ''4'', ''1'', ''2312'', ''9'', ''1'',
        replicate 234 (CHR ''7'')]"
    by (simp add: g_strsplit_def pieces_run_end cut_def)
  have e1: "OBJ_obj2txt (MAX_BUFF sample_macros)
              \<lparr>obj = long_oid_early, ext_value = ''Product''\<rparr> = cut_early"
    by (simp add: long_oid_early_def OBJ_obj2txt_def sample_macros_def cut_early_def)
  have e2: "g_str_has_prefix cut_early (REDHAT_PRODUCT_OID sample_macros)"
    by (simp add: sample_macros_def g_str_has_prefix_def cut_early_def)
  have e3: "g_strsplit cut_early (CHR ''.'')
     = [''1'', ''3'', ''6'', ''1'', ''4'', ''1'', ''2312'', ''9'', replicate 236 (CHR ''1'')]"
    by (simp add: g_strsplit_def pieces_run_end cut_early_def)
  have f1: "findProductId sample_ssl_long sample_macros ''PEM-long'' []
       = (1, replicate 234 (CHR ''7''), [(Debug, ''ID of product certificate'')])"
    by (simp add: findProductId_def sample_ssl_long_def sample_cert_long_def
          X509_get_ext_count_def X509_get_ext_def c1 c2 c3 Let_def)
  have f2: "findProductId sample_ssl_long sample_macros ''PEM-long-early'' []
       = (- 1, [], [(Error, ''Product certificate does not contain required ID'')])"
    by (simp add: findProductId_def sample_ssl_long_def sample_cert_long_early_def
          X509_get_ext_count_def X509_get_ext_def e1 e2 e3 Let_def)
  have ne: "replicate 234 (CHR ''7'') \<noteq> replicate 300 (CHR ''7'')"
    by (simp add: replicate_eq_replicate)
  show ?thesis
    using p f1 f2 ne
    by (simp add: long_oid_split long_oid_early_split sample_ssl_long_def
          sample_cert_long_def sample_cert_long_early_def)
qed

theorem findProductId_failures_witness:
  "BIO_new_mem_buf sample_ssl ''PEM-plain'' = Some ''PEM-plain''
   \<and> PEM_read_bio_X509 sample_ssl ''PEM-plain'' = Some sample_cert_plain
   \<and> findProductId sample_ssl sample_macros ''PEM-plain'' []
       = (- 1, [], [(Warn, ''Red Hat Product OID: 1.3.6.1.4.1.2312.9.1 not found'')])
   \<and> BIO_new_mem_buf sample_ssl ''PEM-short'' = Some ''PEM-short''
   \<and> PEM_read_bio_X509 sample_ssl ''PEM-short'' = Some sample_cert_short
   \<and> findProductId sample_ssl sample_macros ''PEM-short'' []
       = (- 1, [], [(Error, ''Product certificate does not contain required ID'')])"
proof -
  have p1: "BIO_new_mem_buf sample_ssl ''PEM-plain'' = Some ''PEM-plain''"
    and p2: "PEM_read_bio_X509 sample_ssl ''PEM-plain'' = Some sample_cert_plain"
    and s1: "BIO_new_mem_buf sample_ssl ''PEM-short'' = Some ''PEM-short''"
    and s2: "PEM_read_bio_X509 sample_ssl ''PEM-short'' = Some sample_cert_short"
    by (simp_all add: sample_ssl_def)
  have np: "\<forall>e\<in>set (extensions sample_cert_plain).
            \<not> g_str_has_prefix (OBJ_obj2txt (MAX_BUFF sample_macros) e)
                (REDHAT_PRODUCT_OID sample_macros)"
    by (simp add: sample_cert_plain_def sample_macros_def OBJ_obj2txt_def g_str_has_prefix_def)
  have a: "findProductId sample_ssl sample_macros ''PEM-plain'' []
       = (- 1, [], [(Warn, ''Red Hat Product OID: 1.3.6.1.4.1.2312.9.1 not found'')])"
    using findProductId_failures[OF p1 p2, of sample_macros "[]"] np
    by (simp add: sample_macros_def)
  have sh: "extensions sample_cert_short
        = [\<lparr>obj = ''2.5.29.19'', ext_value = []\<rparr>]
          @ \<lparr>obj = ''1.3.6.1.4.1.2312.9.1'', ext_value = []\<rparr> # []
      \<and> (\<forall>e\<in>set [\<lparr>obj = ''2.5.29.19'', ext_value = []\<rparr>].
               \<not> g_str_has_prefix (OBJ_obj2txt (MAX_BUFF sample_macros) e)
                   (REDHAT_PRODUCT_OID sample_macros))
      \<and> g_str_has_prefix (OBJ_obj2txt (MAX_BUFF sample_macros)
            \<lparr>obj = ''1.3.6.1.4.1.2312.9.1'', ext_value = []\<rparr>) (REDHAT_PRODUCT_OID sample_macros)
      \<and> length (g_strsplit (OBJ_obj2txt (MAX_BUFF sample_macros)
            \<lparr>obj = ''1.3.6.1.4.1.2312.9.1'', ext_value = []\<rparr>) (CHR ''.'')) < 10"
    by (simp add: sample_cert_short_def sample_macros_def OBJ_obj2txt_def g_str_has_prefix_def
          g_strsplit_def)
  have b: "findProductId sample_ssl sample_macros ''PEM-short'' []
       = (- 1, [], [(Error, ''Product certificate does not contain required ID'')])"
    using findProductId_failures[OF s1 s2, of sample_macros "[]"] sh by blast
  show ?thesis using p1 p2 s1 s2 a b by simp
qed

theorem findProductId_failures_counterexample:
  "fst (findProductId sample_ssl sample_macros ''PEM-plain'' [])
     = fst (findProductId sample_ssl sample_macros ''PEM-short'' [])
   \<and> fst (snd (findProductId sample_ssl sample_macros ''PEM-plain'' []))
     = fst (snd (findProductId sample_ssl sample_macros ''PEM-short'' []))
   \<and> fst (findProductId sample_ssl sample_macros ''PEM-plain'' []) = - 1"
  by (simp add: sample_findProductId_plain sample_findProductId_short)

section \<open>Properties of \<^verbatim>\<open>removeUnusedProductCerts\<close>\<close>

lemma is_num_loop_iff: "is_num_loop s \<longleftrightarrow> (\<forall>c\<in>set s. c \<in> set ''0123456789'')"
  by (induction s) (simp_all add: g_ascii_isdigit_def)

lemma has_suffix_iff: "g_str_has_suffix n suf \<longleftrightarrow> (\<exists>stem. n = stem @ suf)"
proof
  assume "g_str_has_suffix n suf"
  then have "length suf \<le> length n" "drop (length n - length suf) n = suf"
    by (auto simp add: g_str_has_suffix_def split: if_splits)
  then have "n = take (length n - length suf) n @ suf"
    by (metis append_take_drop_id)
  then show "\<exists>stem. n = stem @ suf" by blast
next
  assume "\<exists>stem. n = stem @ suf"
  then show "g_str_has_suffix n suf" by (auto simp add: g_str_has_suffix_def)
qed


lemma stale_iff:
  "(g_str_has_suffix n ''.pem'' \<and> is_num_loop (g_strndup n (length n - 4))
      \<and> \<not> hasProductId db (g_strndup n (length n - 4)))
   \<longleftrightarrow> (\<exists>stem. n = stem @ ''.pem'' \<and> (\<forall>c\<in>set stem. c \<in> set ''0123456789'')
          \<and> \<not> hasProductId db stem)"
proof
  assume a: "g_str_has_suffix n ''.pem'' \<and> is_num_loop (g_strndup n (length n - 4))
      \<and> \<not> hasProductId db (g_strndup n (length n - 4))"
  then obtain stem where s: "n = stem @ ''.pem''" using has_suffix_iff by blast
  then have t: "g_strndup n (length n - 4) = stem" by (simp add: g_strndup_def)
  show "\<exists>stem. n = stem @ ''.pem'' \<and> (\<forall>c\<in>set stem. c \<in> set ''0123456789'')
          \<and> \<not> hasProductId db stem"
    using a s t is_num_loop_iff[of stem] by metis
next
  assume "\<exists>stem. n = stem @ ''.pem'' \<and> (\<forall>c\<in>set stem. c \<in> set ''0123456789'')
          \<and> \<not> hasProductId db stem"
  then obtain stem where s: "n = stem @ ''.pem''" "\<forall>c\<in>set stem. c \<in> set ''0123456789''"
      "\<not> hasProductId db stem" by blast
  have t: "g_strndup n (length n - 4) = stem" using s(1) by (simp add: g_strndup_def)
  have "g_str_has_suffix n ''.pem''" using s(1) has_suffix_iff by blast
  then show "g_str_has_suffix n ''.pem'' \<and> is_num_loop (g_strndup n (length n - 4))
      \<and> \<not> hasProductId db (g_strndup n (length n - 4))"
    using t s(2,3) is_num_loop_iff[of stem] by metis
qed

lemma sweep_loop_remove_fails:
  "remove_fails (sweep_loop cfg db names w) = remove_fails w"
  by (induction names arbitrary: w)
     (simp_all add: Let_def g_remove_def emit_def say_def)

lemma sweep_loop_trace:
  "trace (sweep_loop cfg db names w)
     = trace w @ map (\<lambda>n. Remove (PRODUCT_CERT_DIR cfg @ n))
         (filter (\<lambda>n. g_str_has_suffix n ''.pem'' \<and> is_num_loop (g_strndup n (length n - 4))
                    \<and> \<not> hasProductId db (g_strndup n (length n - 4))) names)"
  by (induction names arbitrary: w)
     (simp_all add: Let_def g_remove_def emit_def say_def)









section \<open>Properties of \<^verbatim>\<open>pluginHook\<close>\<close>

lemma decompress_returns:
  assumes "2 \<le> CHUNK cfg"
  shows "\<exists>ret out idx fr input1.
           decompress cfg junk (gz_stream bytes fault) output = Some (ret, out, idx, fr, input1)"
proof -
  have "gz_err (gz_stream bytes fault) = 0" "\<not> gz_past (gz_stream bytes fault)"
    by (simp_all add: gz_stream_def)
  with decompress_loop_returns[OF assms, of "gz_stream bytes fault" junk "output" "[]"]
  show ?thesis by (auto simp add: decompress_def)
qed

lemma addRepoId_has:
  "hasProductId (addRepoId db p r) q \<longleftrightarrow> q = p \<or> hasProductId db q"
  by (simp add: hasProductId_def addRepoId_def)

lemma addRepoId_ids:
  "(case repoMap (addRepoId db p r) q of None \<Rightarrow> {} | Some s \<Rightarrow> s)
     = (if q = p then insert r (case repoMap db p of None \<Rightarrow> {} | Some s \<Rightarrow> s)
        else (case repoMap db q of None \<Rightarrow> {} | Some s \<Rightarrow> s))"
  by (simp add: addRepoId_def)

lemma update_keys: "fst ` set (AList.update k v es) = insert k (fst ` set es)"
  by (induction es) auto

text \<open>What one call of \<^verbatim>\<open>installProductId\<close> does to the database and to the world.\<close>

lemma installProductId_effect:
  assumes "2 \<le> CHUNK cfg"
  shows "\<exists>ret db' w' new.
      installProductId ssl cfg rp db w = Some (ret, db', w')
    \<and> trace w' = trace w @ new
    \<and> (\<forall>x. Remove x \<notin> set new)
    \<and> (\<forall>p. hasProductId db' p \<longleftrightarrow> hasProductId db p \<or> (\<exists>r. AddRepoId p r \<in> set new))
    \<and> (\<forall>p r. r \<in> (case repoMap db' p of None \<Rightarrow> {} | Some s \<Rightarrow> s)
           \<longleftrightarrow> r \<in> (case repoMap db p of None \<Rightarrow> {} | Some s \<Rightarrow> s) \<or> AddRepoId p r \<in> set new)
    \<and> path db' = path db
    \<and> remove_fails w' = remove_fails w \<and> write_fails w' = write_fails w
    \<and> mkdir_fails w' = mkdir_fails w \<and> fopen_fails w' = fopen_fails w
    \<and> gz_files w' = gz_files w \<and> stack w' = stack w
    \<and> (\<forall>es. cert_dir w = Some es \<longrightarrow> (\<exists>es'. cert_dir w' = Some es' \<and> fst ` set es \<subseteq> fst ` set es'))"
proof (cases "gz_files w (productIdPath rp)")
  case None
  then show ?thesis
    by (simp add: installProductId_def Let_def emit_def say_def)
next
  case (Some bf)
  obtain bytes fault where bf: "bf = (bytes, fault)" by (cases bf)
  obtain ret out idx fr input1 where d:
    "decompress cfg (stack w) (gz_stream bytes fault) [] = Some (ret, out, idx, fr, input1)"
    using decompress_returns[OF assms] by blast
  obtain pf outname lg where f: "findProductId ssl cfg out [] = (pf, outname, lg)"
    by (cases "findProductId ssl cfg out []")
  show ?thesis
  proof (cases "ret = FALSE \<or> pf = 0 \<or> mkdir_fails w (PRODUCT_CERT_DIR cfg)
                \<or> fopen_fails w (PRODUCT_CERT_DIR cfg @ outname @ ''.pem'')")
    case True
    then show ?thesis using Some bf d f
      by (auto simp add: installProductId_def Let_def emit_def say_def
            g_mkdir_with_parents_def write_cert_def)
  next
    case False
    then show ?thesis using Some bf d f
      apply (simp add: installProductId_def Let_def emit_def say_def
            g_mkdir_with_parents_def write_cert_def addRepoId_has addRepoId_ids)
      apply (auto simp add: update_keys addRepoId_def)
      done
  qed
qed


lemma install_loop_effect:
  assumes "2 \<le> CHUNK cfg"
  shows "\<exists>db' w' new.
      install_loop ssl cfg rps db w = Some (db', w')
    \<and> trace w' = trace w @ new
    \<and> (\<forall>x. Remove x \<notin> set new)
    \<and> (\<forall>p. hasProductId db' p \<longleftrightarrow> hasProductId db p \<or> (\<exists>r. AddRepoId p r \<in> set new))
    \<and> (\<forall>p r. r \<in> (case repoMap db' p of None \<Rightarrow> {} | Some s \<Rightarrow> s)
           \<longleftrightarrow> r \<in> (case repoMap db p of None \<Rightarrow> {} | Some s \<Rightarrow> s) \<or> AddRepoId p r \<in> set new)
    \<and> path db' = path db
    \<and> remove_fails w' = remove_fails w \<and> write_fails w' = write_fails w
    \<and> (\<forall>es. cert_dir w = Some es \<longrightarrow> (\<exists>es'. cert_dir w' = Some es' \<and> fst ` set es \<subseteq> fst ` set es'))"
proof (induction rps arbitrary: db w)
  case Nil
  show ?case by simp
next
  case (Cons rp rps)
  from installProductId_effect[OF assms, of ssl rp db w]
  obtain ret db1 w1 new1 where s1:
      "installProductId ssl cfg rp db w = Some (ret, db1, w1)
    \<and> trace w1 = trace w @ new1
    \<and> (\<forall>x. Remove x \<notin> set new1)
    \<and> (\<forall>p. hasProductId db1 p \<longleftrightarrow> hasProductId db p \<or> (\<exists>r. AddRepoId p r \<in> set new1))
    \<and> (\<forall>p r. r \<in> (case repoMap db1 p of None \<Rightarrow> {} | Some s \<Rightarrow> s)
           \<longleftrightarrow> r \<in> (case repoMap db p of None \<Rightarrow> {} | Some s \<Rightarrow> s) \<or> AddRepoId p r \<in> set new1)
    \<and> path db1 = path db
    \<and> remove_fails w1 = remove_fails w \<and> write_fails w1 = write_fails w
    \<and> mkdir_fails w1 = mkdir_fails w \<and> fopen_fails w1 = fopen_fails w
    \<and> gz_files w1 = gz_files w \<and> stack w1 = stack w
    \<and> (\<forall>es. cert_dir w = Some es \<longrightarrow> (\<exists>es'. cert_dir w1 = Some es' \<and> fst ` set es \<subseteq> fst ` set es'))"
    by (elim exE) 
  from Cons.IH[of db1 w1]
  obtain db2 w2 new2 where s2:
      "install_loop ssl cfg rps db1 w1 = Some (db2, w2)
    \<and> trace w2 = trace w1 @ new2
    \<and> (\<forall>x. Remove x \<notin> set new2)
    \<and> (\<forall>p. hasProductId db2 p \<longleftrightarrow> hasProductId db1 p \<or> (\<exists>r. AddRepoId p r \<in> set new2))
    \<and> (\<forall>p r. r \<in> (case repoMap db2 p of None \<Rightarrow> {} | Some s \<Rightarrow> s)
           \<longleftrightarrow> r \<in> (case repoMap db1 p of None \<Rightarrow> {} | Some s \<Rightarrow> s) \<or> AddRepoId p r \<in> set new2)
    \<and> path db2 = path db1
    \<and> remove_fails w2 = remove_fails w1 \<and> write_fails w2 = write_fails w1
    \<and> (\<forall>es. cert_dir w1 = Some es \<longrightarrow> (\<exists>es'. cert_dir w2 = Some es' \<and> fst ` set es \<subseteq> fst ` set es'))"
    by (elim exE)
  have a: "install_loop ssl cfg (rp # rps) db w = Some (db2, w2)" using s1 s2 by simp
  have b: "trace w2 = trace w @ (new1 @ new2)" using s1 s2 by simp
  have c: "\<forall>x. Remove x \<notin> set (new1 @ new2)" using s1 s2 by simp
  have h1: "\<forall>p. hasProductId db1 p \<longleftrightarrow> hasProductId db p \<or> (\<exists>r. AddRepoId p r \<in> set new1)"
    using s1 by simp
  have h2: "\<forall>p. hasProductId db2 p \<longleftrightarrow> hasProductId db1 p \<or> (\<exists>r. AddRepoId p r \<in> set new2)"
    using s2 by simp
  have d: "\<forall>p. hasProductId db2 p \<longleftrightarrow> hasProductId db p \<or> (\<exists>r. AddRepoId p r \<in> set (new1 @ new2))"
    using h1 h2 by auto
  have i1: "\<forall>p r. r \<in> (case repoMap db1 p of None \<Rightarrow> {} | Some s \<Rightarrow> s)
           \<longleftrightarrow> r \<in> (case repoMap db p of None \<Rightarrow> {} | Some s \<Rightarrow> s) \<or> AddRepoId p r \<in> set new1"
    using s1 by simp
  have i2: "\<forall>p r. r \<in> (case repoMap db2 p of None \<Rightarrow> {} | Some s \<Rightarrow> s)
           \<longleftrightarrow> r \<in> (case repoMap db1 p of None \<Rightarrow> {} | Some s \<Rightarrow> s) \<or> AddRepoId p r \<in> set new2"
    using s2 by simp
  have e: "\<forall>p r. r \<in> (case repoMap db2 p of None \<Rightarrow> {} | Some s \<Rightarrow> s)
           \<longleftrightarrow> r \<in> (case repoMap db p of None \<Rightarrow> {} | Some s \<Rightarrow> s) \<or> AddRepoId p r \<in> set (new1 @ new2)"
    using i1 i2 by auto
  have c1: "\<forall>es. cert_dir w = Some es \<longrightarrow> (\<exists>es'. cert_dir w1 = Some es' \<and> fst ` set es \<subseteq> fst ` set es')"
    using s1 by simp
  have c2: "\<forall>es. cert_dir w1 = Some es \<longrightarrow> (\<exists>es'. cert_dir w2 = Some es' \<and> fst ` set es \<subseteq> fst ` set es')"
    using s2 by simp
  have f: "\<forall>es. cert_dir w = Some es \<longrightarrow> (\<exists>es'. cert_dir w2 = Some es' \<and> fst ` set es \<subseteq> fst ` set es')"
  proof (intro allI impI)
    fix es assume "cert_dir w = Some es"
    then obtain es1 where e1: "cert_dir w1 = Some es1" "fst ` set es \<subseteq> fst ` set es1"
      using c1 by blast
    then obtain es2 where e2: "cert_dir w2 = Some es2" "fst ` set es1 \<subseteq> fst ` set es2"
      using c2 by blast
    show "\<exists>es'. cert_dir w2 = Some es' \<and> fst ` set es \<subseteq> fst ` set es'"
      using e1 e2 by blast
  qed
  have g: "path db2 = path db" "remove_fails w2 = remove_fails w" "write_fails w2 = write_fails w"
    using s1 s2 by simp_all
  show ?case
    apply (rule exI[of _ db2], rule exI[of _ w2], rule exI[of _ "new1 @ new2"])
    using a b c d e f g by blast
qed

lemma fetchProductId_effect:
  "\<exists>new. trace (snd (snd (fetchProductId r w))) = trace w @ new
     \<and> (\<forall>x. Remove x \<notin> set new) \<and> (\<forall>p q. AddRepoId p q \<notin> set new)
     \<and> cert_dir (snd (snd (fetchProductId r w))) = cert_dir w
     \<and> remove_fails (snd (snd (fetchProductId r w))) = remove_fails w
     \<and> write_fails (snd (snd (fetchProductId r w))) = write_fails w"
  by (simp add: fetchProductId_def Let_def emit_def say_def)

lemma fetch_loop_effect:
  "\<exists>new. trace (snd (fetch_loop rs w)) = trace w @ new
     \<and> (\<forall>x. Remove x \<notin> set new) \<and> (\<forall>p q. AddRepoId p q \<notin> set new)
     \<and> cert_dir (snd (fetch_loop rs w)) = cert_dir w
     \<and> remove_fails (snd (fetch_loop rs w)) = remove_fails w
     \<and> write_fails (snd (fetch_loop rs w)) = write_fails w"
proof (induction rs arbitrary: w)
  case Nil
  show ?case by simp
next
  case (Cons r rs)
  show ?case
  proof (cases "repomd r")
    case RepomdError
    then show ?thesis
      using Cons.IH[of "say Error ''Unable to get information about repository'' w"]
      by (simp add: say_def)
  next
    case RepomdNull
    then show ?thesis
      using Cons.IH[of "say Error ''Unable to get valid information about repository'' w"]
      by (simp add: say_def)
  next
    case (Repomd records)
    show ?thesis
    proof (cases "''productid'' \<in> set records")
      case False
      then show ?thesis using Repomd Cons.IH[of w] by simp
    next
      case True
      obtain fs rp w1 where fp: "fetchProductId r w = (fs, rp, w1)"
        by (cases "fetchProductId r w") auto
      obtain found w2 where fl: "fetch_loop rs w1 = (found, w2)"
        by (cases "fetch_loop rs w1")
      obtain new1 where n1: "trace w1 = trace w @ new1" "\<forall>x. Remove x \<notin> set new1"
          "\<forall>p q. AddRepoId p q \<notin> set new1" "cert_dir w1 = cert_dir w"
          "remove_fails w1 = remove_fails w" "write_fails w1 = write_fails w"
        using fetchProductId_effect[of r w] fp by auto
      obtain new2 where n2: "trace w2 = trace w1 @ new2" "\<forall>x. Remove x \<notin> set new2"
          "\<forall>p q. AddRepoId p q \<notin> set new2" "cert_dir w2 = cert_dir w1"
          "remove_fails w2 = remove_fails w1" "write_fails w2 = write_fails w1"
        using Cons.IH[of w1] fl by auto
      have "snd (fetch_loop (r # rs) w) = w2" using Repomd True fp fl by simp
      then show ?thesis using n1 n2
        by (intro exI[of _ "new1 @ new2"]) simp
    qed
  qed
qed




lemma active_loop_quiet:
  "(\<forall>x. Remove x \<notin> set (snd (active_loop ctx inst rps)))
   \<and> (\<forall>p q. AddRepoId p q \<notin> set (snd (active_loop ctx inst rps)))"
  by (auto simp add: active_loop_events)

lemma getActive_quiet:
  "(\<forall>x. Remove x \<notin> set (fst (snd (getActive ctx rps))))
   \<and> (\<forall>p q. AddRepoId p q \<notin> set (fst (snd (getActive ctx rps))))"
proof (cases "rpmdb_sack ctx")
  case None
  then show ?thesis by (simp add: getActive_def)
next
  case (Some rpmdb)
  obtain act evs where al:
    "active_loop ctx (hy_query_reponame rpmdb HY_SYSTEM_REPO_NAME) rps = (act, evs)"
    by (cases "active_loop ctx (hy_query_reponame rpmdb HY_SYSTEM_REPO_NAME) rps")
  have "fst (snd (getActive ctx rps)) = QueryInstalled # evs"
    using Some al by (simp add: getActive_def Let_def)
  then show ?thesis
    using active_loop_quiet[of ctx "hy_query_reponame rpmdb HY_SYSTEM_REPO_NAME" rps] al
    by simp
qed

lemma removeUnusedProductCerts_trace:
  "trace (snd (removeUnusedProductCerts cfg db w))
     = trace w @ map (\<lambda>n. Remove (PRODUCT_CERT_DIR cfg @ n))
         (filter (\<lambda>n. \<exists>stem. n = stem @ ''.pem'' \<and> (\<forall>c\<in>set stem. c \<in> set ''0123456789'')
                         \<and> \<not> hasProductId db stem)
            (case cert_dir w of None \<Rightarrow> [] | Some es \<Rightarrow> map fst es))"
proof (cases "cert_dir w")
  case None
  then show ?thesis by (simp add: removeUnusedProductCerts_def say_def)
next
  case (Some es)
  have "snd (removeUnusedProductCerts cfg db w) = sweep_loop cfg db (map fst es) w"
    using Some by (simp add: removeUnusedProductCerts_def)
  then show ?thesis
    by (simp only: sweep_loop_trace stale_iff Some option.simps)
qed

lemma writeRepoMap_effect:
  "trace (writeRepoMap db w) = trace w @ [WriteProductDb (path db)]
   \<and> productdb_file (writeRepoMap db w)
       = (if write_fails w then productdb_file w else Some (repoMap db))"
  by (simp add: writeRepoMap_def writeProductDb_def Let_def emit_def say_def)

lemma removeUnusedProductCerts_write_fails:
  "write_fails (snd (removeUnusedProductCerts cfg db w)) = write_fails w"
proof -
  have "write_fails (sweep_loop cfg db names v) = write_fails v" for names v
    by (induction names arbitrary: v) (simp_all add: Let_def g_remove_def emit_def say_def)
  then show ?thesis
    by (simp add: removeUnusedProductCerts_def say_def split: option.splits)
qed

text \<open>A transaction pass that gets its directory and its repositories: the database
  that reaches the sweep and the write holds what the pass recorded and nothing else,
  and nothing is removed before the sweep.\<close>

lemma pluginHook_pass:
  assumes "2 \<le> CHUNK cfg" "\<not> mkdir_fails w (PRODUCTDB_DIR cfg)" "repos (initData h) = Some rs"
  shows "\<exists>db w3 new.
      pluginHook ssl cfg (Some h) PLUGIN_HOOK_ID_CONTEXT_TRANSACTION w
        = Some (1, writeRepoMap db (snd (removeUnusedProductCerts cfg db w3)))
    \<and> trace w3 = trace w @ new
    \<and> (\<forall>x. Remove x \<notin> set new)
    \<and> (\<forall>p. hasProductId db p \<longleftrightarrow> (\<exists>r. AddRepoId p r \<in> set new))
    \<and> (\<forall>p r. r \<in> (case repoMap db p of None \<Rightarrow> {} | Some s \<Rightarrow> s) \<longleftrightarrow> AddRepoId p r \<in> set new)
    \<and> path db = PRODUCTDB_FILE cfg
    \<and> remove_fails w3 = remove_fails w \<and> write_fails w3 = write_fails w
    \<and> (\<forall>es. cert_dir w = Some es \<longrightarrow> (\<exists>es'. cert_dir w3 = Some es' \<and> fst ` set es \<subseteq> fst ` set es'))"
proof -
  define wm where "wm = snd (g_mkdir_with_parents cfg (PRODUCTDB_DIR cfg) w)"
  define w1 where "w1 = emit GetRepos wm"
  have m: "g_mkdir_with_parents cfg (PRODUCTDB_DIR cfg) w = (0, wm)"
    using assms(2) by (simp add: wm_def g_mkdir_with_parents_def Let_def)
  have w1: "trace w1 = trace w @ [Mkdir (PRODUCTDB_DIR cfg), GetRepos]"
      "remove_fails w1 = remove_fails w" "write_fails w1 = write_fails w"
      "\<forall>es. cert_dir w = Some es \<longrightarrow> cert_dir w1 = Some es"
    using assms(2) by (simp_all add: w1_def wm_def g_mkdir_with_parents_def Let_def emit_def)
  obtain rps w2 where fl: "fetch_loop (getEnabled rs) w1 = (rps, w2)"
    by (cases "fetch_loop (getEnabled rs) w1")
  from fetch_loop_effect[of "getEnabled rs" w1] fl
  obtain newf where w2: "trace w2 = trace w1 @ newf" "\<forall>x. Remove x \<notin> set newf"
      "\<forall>p q. AddRepoId p q \<notin> set newf" "cert_dir w2 = cert_dir w1"
      "remove_fails w2 = remove_fails w1" "write_fails w2 = write_fails w1"
    by auto
  obtain act evs lg where ga: "getActive (initData h) rps = (act, evs, lg)"
    by (cases "getActive (initData h) rps") auto
  have q: "\<forall>x. Remove x \<notin> set evs" "\<forall>p q. AddRepoId p q \<notin> set evs"
    using getActive_quiet[of "initData h" rps] ga by simp_all
  define w2a where "w2a = w2\<lparr>trace := trace w2 @ evs, diag := diag w2 @ lg\<rparr>"
  define db0 where "db0 = initProductDb\<lparr>path := PRODUCTDB_FILE cfg\<rparr>"
  have db0: "\<forall>p. \<not> hasProductId db0 p" "\<forall>p. repoMap db0 p = None" "path db0 = PRODUCTDB_FILE cfg"
    by (simp_all add: db0_def initProductDb_def hasProductId_def)
  from install_loop_effect[OF assms(1), of ssl act db0 w2a]
  obtain db w3 newi where il:
      "install_loop ssl cfg act db0 w2a = Some (db, w3)
    \<and> trace w3 = trace w2a @ newi
    \<and> (\<forall>x. Remove x \<notin> set newi)
    \<and> (\<forall>p. hasProductId db p \<longleftrightarrow> hasProductId db0 p \<or> (\<exists>r. AddRepoId p r \<in> set newi))
    \<and> (\<forall>p r. r \<in> (case repoMap db p of None \<Rightarrow> {} | Some s \<Rightarrow> s)
           \<longleftrightarrow> r \<in> (case repoMap db0 p of None \<Rightarrow> {} | Some s \<Rightarrow> s) \<or> AddRepoId p r \<in> set newi)
    \<and> path db = path db0
    \<and> remove_fails w3 = remove_fails w2a \<and> write_fails w3 = write_fails w2a
    \<and> (\<forall>es. cert_dir w2a = Some es \<longrightarrow> (\<exists>es'. cert_dir w3 = Some es' \<and> fst ` set es \<subseteq> fst ` set es'))"
    by (elim exE)
  define new where "new = [Mkdir (PRODUCTDB_DIR cfg), GetRepos] @ newf @ evs @ newi"
  have a: "pluginHook ssl cfg (Some h) PLUGIN_HOOK_ID_CONTEXT_TRANSACTION w
        = Some (1, writeRepoMap db (snd (removeUnusedProductCerts cfg db w3)))"
    using assms(3) il
    by (simp add: pluginHook_def m Let_def w1_def[symmetric] fl ga
          w2a_def[symmetric] db0_def[symmetric] case_prod_unfold)
  have b: "trace w3 = trace w @ new"
    using il w1 w2 by (simp add: new_def w2a_def)
  have c: "\<forall>x. Remove x \<notin> set new"
    using il w2 q by (simp add: new_def)
  have i1: "\<forall>p r. AddRepoId p r \<in> set new \<longleftrightarrow> AddRepoId p r \<in> set newi"
    using w2 q by (auto simp add: new_def)
  have d: "\<forall>p. hasProductId db p \<longleftrightarrow> (\<exists>r. AddRepoId p r \<in> set new)"
    using il db0 i1 by simp
  have e: "\<forall>p r. r \<in> (case repoMap db p of None \<Rightarrow> {} | Some s \<Rightarrow> s) \<longleftrightarrow> AddRepoId p r \<in> set new"
    using il db0 i1 by simp
  have f: "path db = PRODUCTDB_FILE cfg" "remove_fails w3 = remove_fails w"
      "write_fails w3 = write_fails w"
    using il db0 w1 w2 by (simp_all add: w2a_def)
  have g: "\<forall>es. cert_dir w = Some es \<longrightarrow> (\<exists>es'. cert_dir w3 = Some es' \<and> fst ` set es \<subseteq> fst ` set es')"
  proof (intro allI impI)
    fix es assume "cert_dir w = Some es"
    then have "cert_dir w2a = Some es" using w1 w2 by (simp add: w2a_def)
    then show "\<exists>es'. cert_dir w3 = Some es' \<and> fst ` set es \<subseteq> fst ` set es'"
      using il by blast
  qed
  show ?thesis
    apply (rule exI[of _ db], rule exI[of _ w3], rule exI[of _ new])
    using a b c d e f g by blast
qed

lemma pluginHook_returns_1:
  "pluginHook ssl cfg (Some h) hook_id v = Some (ret, v') \<Longrightarrow> ret = 1"
  by (auto simp add: pluginHook_def Let_def split: if_splits option.splits prod.splits)

lemma sample_decompress:
  "decompress sample_macros sample_stack (gz_stream ''PEM-69'' 0) []
     = Some (TRUE, ''PEM-69'', [6],
             poke (sample_stack\<lparr>fr_buffer := ''PEM-69'' @ drop 6 (fr_buffer sample_stack)\<rparr>) 6
               (CHR 0x00),
             \<lparr>gz_pending = [], gz_fault = 0, gz_err = 0, gz_past = True\<rparr>)"
  using decompress_loop_short_read[of "''PEM-69''" 16384 sample_stack 0 "[]" "[]"]
  by (simp add: decompress_def sample_macros_def sample_stack_def gz_fatal_def c_str_def)

lemma sample_fetch:
  "fetch_loop (getEnabled [sample_repo_a, sample_repo_b]) w
     = ([sample_entry_a, sample_entry_b],
        w\<lparr>trace := trace w @ [Fetch ''repo-a'', Fetch ''repo-b'']\<rparr>)"
  by (simp add: sample_repo_a_def sample_repo_b_def sample_entry_a_def sample_entry_b_def
        sample_lr_def DNF_REPO_ENABLED_PACKAGES_def fetchProductId_def Let_def emit_def)

lemma sample_install:
  assumes "stack w = sample_stack"
    and "gz_files w ''/var/cache/dnf/repo-a/productid.gz'' = Some (''PEM-69'', 0)"
    and "\<not> mkdir_fails w ''/etc/pki/product/''"
    and "\<not> fopen_fails w ''/etc/pki/product/69.pem''"
    and "cert_dir w = Some es"
  shows "installProductId sample_ssl sample_macros sample_entry_a db w
     = Some (1, addRepoId db ''69'' ''repo-a'',
         w\<lparr>trace := trace w @ [GzOpen ''/var/cache/dnf/repo-a/productid.gz'',
                        Mkdir ''/etc/pki/product/'',
                        WriteFile ''/etc/pki/product/69.pem'' ''PEM-69'',
                        AddRepoId ''69'' ''repo-a''],
            diag := diag w @ [(Debug, ''ID of product certificate''),
                         (Info, ''Product certificate installed'')],
            cert_dir := Some (AList.update ''69.pem'' ''PEM-69'' es)\<rparr>)"
proof -
  have s: "productIdPath sample_entry_a = ''/var/cache/dnf/repo-a/productid.gz''"
    "repo_id (repo sample_entry_a) = ''repo-a''"
    "PRODUCT_CERT_DIR sample_macros = ''/etc/pki/product/''"
    by (simp_all add: sample_entry_a_def sample_repo_a_def sample_macros_def)
  show ?thesis
    using assms
    by (simp add: installProductId_def s sample_decompress sample_findProductId Let_def
          TRUE_def FALSE_def g_mkdir_with_parents_def write_cert_def emit_def say_def
          c_str_def)
qed

lemma sample_db_has_69:
  "hasProductId (addRepoId (initProductDb\<lparr>path := f\<rparr>) ''69'' ''repo-a'') p \<longleftrightarrow> p = ''69''"
  by (simp add: hasProductId_def addRepoId_def initProductDb_def)

lemma sample_sweep_loop:
  assumes "\<not> remove_fails w ''/etc/pki/product/99.pem''"
  shows "sweep_loop sample_macros (addRepoId (initProductDb\<lparr>path := f\<rparr>) ''69'' ''repo-a'')
           [''69.pem'', ''99.pem'', ''abc.pem'', ''README''] w
     = w\<lparr>trace := trace w @ [Remove ''/etc/pki/product/99.pem''],
          diag := diag w @ [(Info, ''Removing product certificate''),
             (Debug, ''Name of product certificate is wrong (not digits only). Skipping.'')],
          cert_dir := map_option (AList.delete ''99.pem'') (cert_dir w)\<rparr>"
  using assms
  by (simp add: g_str_has_suffix_def g_strndup_def g_ascii_isdigit_def sample_db_has_69
        g_remove_def emit_def say_def Let_def sample_macros_def)

lemma pluginHook_steps:
  assumes "g_mkdir_with_parents cfg (PRODUCTDB_DIR cfg) w = (0, w1)"
    and "repos (initData h) = Some rs"
    and "fetch_loop (getEnabled rs) (emit GetRepos w1) = (rps, w2)"
    and "getActive (initData h) rps = (act, evs, lg)"
    and "install_loop ssl cfg act (initProductDb\<lparr>path := PRODUCTDB_FILE cfg\<rparr>)
           (w2\<lparr>trace := trace w2 @ evs, diag := diag w2 @ lg\<rparr>) = Some (db, w3)"
    and "removeUnusedProductCerts cfg db w3 = (r, w4)"
  shows "pluginHook ssl cfg (Some h) PLUGIN_HOOK_ID_CONTEXT_TRANSACTION w
           = Some (1, writeRepoMap db w4)"
  using assms by (simp add: pluginHook_def Let_def)

lemma sample_pass:
  "pluginHook sample_ssl sample_macros (Some sample_handle)
       PLUGIN_HOOK_ID_CONTEXT_TRANSACTION sample_world
     = Some (1, sample_world
         \<lparr>trace := [Mkdir ''/var/lib/rhsm/'', GetRepos, Fetch ''repo-a'', Fetch ''repo-b'',
             QueryInstalled, QueryAvailable ''repo-a'', Visit ''repo-a'' ''foo-0:1.0-1.x86_64'',
             QueryAvailable ''repo-b'', Visit ''repo-b'' ''bar-0:2.0-1.noarch'',
             GzOpen ''/var/cache/dnf/repo-a/productid.gz'', Mkdir ''/etc/pki/product/'',
             WriteFile ''/etc/pki/product/69.pem'' ''PEM-69'', AddRepoId ''69'' ''repo-a'',
             Remove ''/etc/pki/product/99.pem'',
             WriteProductDb ''/var/lib/rhsm/productid.js''],
          diag := [(Debug, ''ID of product certificate''),
             (Info, ''Product certificate installed''),
             (Info, ''Removing product certificate''),
             (Debug, ''Name of product certificate is wrong (not digits only). Skipping.'')],
          cert_dir := Some [(''69.pem'', ''PEM-69''), (''abc.pem'', ''other''),
             (''README'', ''text'')],
          productdb_file := Some [''69'' \<mapsto> {''repo-a''}]\<rparr>)"
proof -
  have s: "stack sample_world = sample_stack"
    "gz_files sample_world ''/var/cache/dnf/repo-a/productid.gz'' = Some (''PEM-69'', 0)"
    "mkdir_fails sample_world = (\<lambda>dir. False)"
    "fopen_fails sample_world = (\<lambda>file. False)"
    "remove_fails sample_world = (\<lambda>file. False)"
    "write_fails sample_world = False"
    "trace sample_world = []" "diag sample_world = []"
    "cert_dir sample_world = Some [(''69.pem'', ''old''), (''99.pem'', ''stale''),
                       (''abc.pem'', ''other''), (''README'', ''text'')]"
    by (simp_all add: sample_world_def)
  have c: "PRODUCTDB_DIR sample_macros = ''/var/lib/rhsm/''"
    "PRODUCT_CERT_DIR sample_macros = ''/etc/pki/product/''"
    "PRODUCTDB_FILE sample_macros = ''/var/lib/rhsm/productid.js''"
    by (simp_all add: sample_macros_def)
  define w1 where "w1 = sample_world\<lparr>trace := [Mkdir ''/var/lib/rhsm/'']\<rparr>"
  define w2 where "w2 = sample_world\<lparr>trace := [Mkdir ''/var/lib/rhsm/'', GetRepos,
      Fetch ''repo-a'', Fetch ''repo-b'']\<rparr>"
  define evs where "evs = [QueryInstalled, QueryAvailable ''repo-a'',
      Visit ''repo-a'' ''foo-0:1.0-1.x86_64'', QueryAvailable ''repo-b'',
      Visit ''repo-b'' ''bar-0:2.0-1.noarch'']"
  define w2a where "w2a = w2\<lparr>trace := trace w2 @ evs, diag := diag w2 @ []\<rparr>"
  define db0 where "db0 = initProductDb\<lparr>path := PRODUCTDB_FILE sample_macros\<rparr>"
  define db1 where "db1 = addRepoId db0 ''69'' ''repo-a''"
  define w3 where "w3 = w2a\<lparr>trace := trace w2a @ [GzOpen ''/var/cache/dnf/repo-a/productid.gz'',
                        Mkdir ''/etc/pki/product/'',
                        WriteFile ''/etc/pki/product/69.pem'' ''PEM-69'',
                        AddRepoId ''69'' ''repo-a''],
            diag := diag w2a @ [(Debug, ''ID of product certificate''),
                         (Info, ''Product certificate installed'')],
            cert_dir := Some (AList.update ''69.pem'' ''PEM-69''
               [(''69.pem'', ''old''), (''99.pem'', ''stale''),
                (''abc.pem'', ''other''), (''README'', ''text'')])\<rparr>"
  define w4 where "w4 = w3\<lparr>trace := trace w3 @ [Remove ''/etc/pki/product/99.pem''],
          diag := diag w3 @ [(Info, ''Removing product certificate''),
             (Debug, ''Name of product certificate is wrong (not digits only). Skipping.'')],
          cert_dir := map_option (AList.delete ''99.pem'') (cert_dir w3)\<rparr>"
  have f2a: "stack w2a = sample_stack"
    "gz_files w2a ''/var/cache/dnf/repo-a/productid.gz'' = Some (''PEM-69'', 0)"
    "\<not> mkdir_fails w2a ''/etc/pki/product/''"
    "\<not> fopen_fails w2a ''/etc/pki/product/69.pem''"
    "cert_dir w2a = Some [(''69.pem'', ''old''), (''99.pem'', ''stale''),
                       (''abc.pem'', ''other''), (''README'', ''text'')]"
    by (simp_all add: w2a_def w2_def s)
  have f3: "\<not> remove_fails w3 ''/etc/pki/product/99.pem''"
    "cert_dir w3 = Some [(''69.pem'', ''PEM-69''), (''99.pem'', ''stale''),
                (''abc.pem'', ''other''), (''README'', ''text'')]"
    by (simp_all add: w3_def w2a_def w2_def s)
  have st1: "g_mkdir_with_parents sample_macros (PRODUCTDB_DIR sample_macros) sample_world
      = (0, w1)"
    by (simp add: g_mkdir_with_parents_def Let_def s c emit_def w1_def)
  have st2: "repos (initData sample_handle) = Some [sample_repo_a, sample_repo_b]"
    by (simp add: sample_handle_def sample_context_def)
  have st3: "fetch_loop (getEnabled [sample_repo_a, sample_repo_b]) (emit GetRepos w1)
      = ([sample_entry_a, sample_entry_b], w2)"
    unfolding sample_fetch by (simp add: emit_def w1_def w2_def)
  have st4: "getActive (initData sample_handle) [sample_entry_a, sample_entry_b]
      = ([sample_entry_a], evs, [])"
    using sample_getActive by (simp add: sample_handle_def evs_def)
  have st5: "install_loop sample_ssl sample_macros [sample_entry_a]
           (initProductDb\<lparr>path := PRODUCTDB_FILE sample_macros\<rparr>)
           (w2\<lparr>trace := trace w2 @ evs, diag := diag w2 @ []\<rparr>) = Some (db1, w3)"
    using sample_install[OF f2a, of db0]
    by (simp add: db1_def db0_def w3_def w2a_def)
  have st6: "removeUnusedProductCerts sample_macros db1 w3 = (0, w4)"
    using sample_sweep_loop[OF f3(1), of "PRODUCTDB_FILE sample_macros"]
    by (simp add: removeUnusedProductCerts_def f3(2) db1_def db0_def w4_def)
  have fin: "writeRepoMap db1 w4 = sample_world
         \<lparr>trace := [Mkdir ''/var/lib/rhsm/'', GetRepos, Fetch ''repo-a'', Fetch ''repo-b'',
             QueryInstalled, QueryAvailable ''repo-a'', Visit ''repo-a'' ''foo-0:1.0-1.x86_64'',
             QueryAvailable ''repo-b'', Visit ''repo-b'' ''bar-0:2.0-1.noarch'',
             GzOpen ''/var/cache/dnf/repo-a/productid.gz'', Mkdir ''/etc/pki/product/'',
             WriteFile ''/etc/pki/product/69.pem'' ''PEM-69'', AddRepoId ''69'' ''repo-a'',
             Remove ''/etc/pki/product/99.pem'',
             WriteProductDb ''/var/lib/rhsm/productid.js''],
          diag := [(Debug, ''ID of product certificate''),
             (Info, ''Product certificate installed''),
             (Info, ''Removing product certificate''),
             (Debug, ''Name of product certificate is wrong (not digits only). Skipping.'')],
          cert_dir := Some [(''69.pem'', ''PEM-69''), (''abc.pem'', ''other''),
             (''README'', ''text'')],
          productdb_file := Some [''69'' \<mapsto> {''repo-a''}]\<rparr>"
    by (simp add: writeRepoMap_def writeProductDb_def Let_def emit_def w4_def w3_def w2a_def
          w2_def evs_def db1_def db0_def addRepoId_def initProductDb_def s c)
  show ?thesis
    using pluginHook_steps[OF st1 st2 st3 st4 st5 st6] fin by simp
qed

text \<open>
  C5. In a pass that starts with an empty record of events, the sweep works on the
  database as the install steps of the same pass left it: for every product id that
  the pass recorded in the database, the certificate file of that product is not
  removed in the pass. (The hook returns for every input, given a chunk size with
  room for a byte of data.)
\<close>

theorem sweep_spares_recorded:
  assumes "2 \<le> CHUNK cfg" and "trace w = []"
  shows "\<exists>ret w'. pluginHook ssl cfg handle hook_id w = Some (ret, w')
    \<and> (\<forall>p r. AddRepoId p r \<in> set (trace w')
          \<longrightarrow> Remove (PRODUCT_CERT_DIR cfg @ p @ ''.pem'') \<notin> set (trace w'))"
proof (cases "\<exists>h rs. handle = Some h \<and> hook_id = PLUGIN_HOOK_ID_CONTEXT_TRANSACTION
                \<and> \<not> mkdir_fails w (PRODUCTDB_DIR cfg) \<and> repos (initData h) = Some rs")
  case False
  then show ?thesis using assms(2)
    by (cases handle)
       (auto simp add: pluginHook_def g_mkdir_with_parents_def Let_def emit_def say_def
          split: option.splits)
next
  case True
  then obtain h rs where hy: "handle = Some h" "hook_id = PLUGIN_HOOK_ID_CONTEXT_TRANSACTION"
      "\<not> mkdir_fails w (PRODUCTDB_DIR cfg)" "repos (initData h) = Some rs"
    by blast
  from pluginHook_pass[OF assms(1) hy(3) hy(4), of ssl]
  obtain db w3 new where p:
      "pluginHook ssl cfg (Some h) PLUGIN_HOOK_ID_CONTEXT_TRANSACTION w
        = Some (1, writeRepoMap db (snd (removeUnusedProductCerts cfg db w3)))
    \<and> trace w3 = trace w @ new
    \<and> (\<forall>x. Remove x \<notin> set new)
    \<and> (\<forall>p. hasProductId db p \<longleftrightarrow> (\<exists>r. AddRepoId p r \<in> set new))
    \<and> (\<forall>p r. r \<in> (case repoMap db p of None \<Rightarrow> {} | Some s \<Rightarrow> s) \<longleftrightarrow> AddRepoId p r \<in> set new)
    \<and> path db = PRODUCTDB_FILE cfg
    \<and> remove_fails w3 = remove_fails w \<and> write_fails w3 = write_fails w
    \<and> (\<forall>es. cert_dir w = Some es \<longrightarrow> (\<exists>es'. cert_dir w3 = Some es' \<and> fst ` set es \<subseteq> fst ` set es'))"
    by (elim exE)
  define names where "names = (case cert_dir w3 of None \<Rightarrow> [] | Some es \<Rightarrow> map fst es)"
  define gone where "gone = filter (\<lambda>n. \<exists>stem. n = stem @ ''.pem''
        \<and> (\<forall>c\<in>set stem. c \<in> set ''0123456789'') \<and> \<not> hasProductId db stem) names"
  define w' where "w' = writeRepoMap db (snd (removeUnusedProductCerts cfg db w3))"
  have t: "trace w' = new @ map (\<lambda>n. Remove (PRODUCT_CERT_DIR cfg @ n)) gone
                        @ [WriteProductDb (path db)]"
    using p assms(2)
    by (simp add: w'_def writeRepoMap_effect removeUnusedProductCerts_trace gone_def names_def)
  have "Remove (PRODUCT_CERT_DIR cfg @ q @ ''.pem'') \<notin> set (trace w')"
    if a: "AddRepoId q r \<in> set (trace w')" for q r
  proof -
    have "AddRepoId q r \<in> set new" using a t by auto
    then have h: "hasProductId db q" using p by blast
    have "q @ ''.pem'' \<notin> set gone" using h by (auto simp add: gone_def)
    then have "Remove (PRODUCT_CERT_DIR cfg @ q @ ''.pem'')
                 \<notin> set (map (\<lambda>n. Remove (PRODUCT_CERT_DIR cfg @ n)) gone)"
      by auto
    moreover have "Remove (PRODUCT_CERT_DIR cfg @ q @ ''.pem'') \<notin> set new" using p by blast
    ultimately show ?thesis using t by simp
  qed
  then have main: "\<forall>p r. AddRepoId p r \<in> set (trace w')
          \<longrightarrow> Remove (PRODUCT_CERT_DIR cfg @ p @ ''.pem'') \<notin> set (trace w')"
    by blast
  have "pluginHook ssl cfg handle hook_id w = Some (1, w')"
    using p hy by (simp add: w'_def)
  then show ?thesis using main by blast
qed


theorem sweep_spares_recorded_witness:
  "2 \<le> CHUNK sample_macros \<and> trace sample_world = []
   \<and> (\<exists>w'. pluginHook sample_ssl sample_macros (Some sample_handle)
               PLUGIN_HOOK_ID_CONTEXT_TRANSACTION sample_world = Some (1, w')
          \<and> AddRepoId ''69'' ''repo-a'' \<in> set (trace w')
          \<and> Remove (PRODUCT_CERT_DIR sample_macros @ ''69'' @ ''.pem'') \<notin> set (trace w')
          \<and> Remove ''/etc/pki/product/99.pem'' \<in> set (trace w'))"
proof -
  have c: "2 \<le> CHUNK sample_macros" by (simp add: sample_macros_def)
  have t: "trace sample_world = []" by (simp add: sample_world_def)
  from sweep_spares_recorded[OF c t, of sample_ssl "Some sample_handle"
         PLUGIN_HOOK_ID_CONTEXT_TRANSACTION]
  obtain ret w' where r:
      "pluginHook sample_ssl sample_macros (Some sample_handle)
         PLUGIN_HOOK_ID_CONTEXT_TRANSACTION sample_world = Some (ret, w')"
      "\<forall>p r. AddRepoId p r \<in> set (trace w')
          \<longrightarrow> Remove (PRODUCT_CERT_DIR sample_macros @ p @ ''.pem'') \<notin> set (trace w')"
    by blast
  have a: "ret = 1" "AddRepoId ''69'' ''repo-a'' \<in> set (trace w')"
      "Remove ''/etc/pki/product/99.pem'' \<in> set (trace w')"
    using r(1) by (auto simp add: sample_pass)
  have "Remove (PRODUCT_CERT_DIR sample_macros @ ''69'' @ ''.pem'') \<notin> set (trace w')"
    using r(2) a(2) by blast
  then show ?thesis using c t r(1) a by blast
qed

text \<open>
  C7 (as amended). When the directory of the product database cannot be created at
  the start of a transaction hook, none of the later steps runs: the hook records the
  failed call and its diagnostic, changes nothing else, and returns 1. That is the
  value every call with a handle returns, so the host cannot tell this outcome from
  a pass that completes.
\<close>

theorem pluginHook_mkdir_failure:
  assumes "mkdir_fails w (PRODUCTDB_DIR cfg)"
  shows "pluginHook ssl cfg (Some h) PLUGIN_HOOK_ID_CONTEXT_TRANSACTION w
           = Some (1, w\<lparr>trace := trace w @ [Mkdir (PRODUCTDB_DIR cfg)],
                        diag := diag w @ [(Error, ''Unable to create directory'')]\<rparr>)
       \<and> (\<forall>hook_id v ret v'.
            pluginHook ssl cfg (Some h) hook_id v = Some (ret, v') \<longrightarrow> ret = 1)"
proof -
  have "pluginHook ssl cfg (Some h) PLUGIN_HOOK_ID_CONTEXT_TRANSACTION w
           = Some (1, w\<lparr>trace := trace w @ [Mkdir (PRODUCTDB_DIR cfg)],
                        diag := diag w @ [(Error, ''Unable to create directory'')]\<rparr>)"
    using assms
    by (simp add: pluginHook_def g_mkdir_with_parents_def Let_def emit_def say_def)
  then show ?thesis using pluginHook_returns_1 by blast
qed

theorem pluginHook_mkdir_failure_witness:
  "mkdir_fails (sample_world\<lparr>mkdir_fails := \<lambda>dir. True\<rparr>) (PRODUCTDB_DIR sample_macros)
   \<and> pluginHook sample_ssl sample_macros (Some sample_handle)
       PLUGIN_HOOK_ID_CONTEXT_TRANSACTION (sample_world\<lparr>mkdir_fails := \<lambda>dir. True\<rparr>)
     = Some (1, sample_world\<lparr>mkdir_fails := \<lambda>dir. True,
                   trace := [Mkdir ''/var/lib/rhsm/''],
                   diag := [(Error, ''Unable to create directory'')]\<rparr>)"
proof -
  have m: "mkdir_fails (sample_world\<lparr>mkdir_fails := \<lambda>dir. True\<rparr>) (PRODUCTDB_DIR sample_macros)"
    by simp
  have f: "trace sample_world = []" "diag sample_world = []"
    "PRODUCTDB_DIR sample_macros = ''/var/lib/rhsm/''"
    by (simp_all add: sample_world_def sample_macros_def)
  show ?thesis
    using m pluginHook_mkdir_failure[OF m, of sample_ssl sample_handle]
    by (simp add: f)
qed

theorem pluginHook_mkdir_failure_counterexample:
  "map_option fst (pluginHook sample_ssl sample_macros (Some sample_handle)
       PLUGIN_HOOK_ID_CONTEXT_TRANSACTION (sample_world\<lparr>mkdir_fails := \<lambda>dir. True\<rparr>))
     = Some 1
   \<and> map_option fst (pluginHook sample_ssl sample_macros (Some sample_handle)
       PLUGIN_HOOK_ID_CONTEXT_TRANSACTION sample_world)
     = Some 1
   \<and> map_option (\<lambda>r. trace (snd r)) (pluginHook sample_ssl sample_macros (Some sample_handle)
       PLUGIN_HOOK_ID_CONTEXT_TRANSACTION (sample_world\<lparr>mkdir_fails := \<lambda>dir. True\<rparr>))
     = Some [Mkdir ''/var/lib/rhsm/'']"
proof -
  have "pluginHook sample_ssl sample_macros (Some sample_handle)
       PLUGIN_HOOK_ID_CONTEXT_TRANSACTION (sample_world\<lparr>mkdir_fails := \<lambda>dir. True\<rparr>)
     = Some (1, sample_world\<lparr>mkdir_fails := \<lambda>dir. True,
                   trace := [Mkdir ''/var/lib/rhsm/''],
                   diag := [(Error, ''Unable to create directory'')]\<rparr>)"
    by (simp add: pluginHook_def g_mkdir_with_parents_def Let_def emit_def say_def
          sample_world_def sample_macros_def)
  then show ?thesis by (simp add: sample_pass)
qed

text \<open>
  C9. A transaction pass that gets its directory and its repositories starts from the
  empty database and does not look at the persisted one: whatever the persisted
  database holds, the database that the pass writes at its end (the one the sweep
  has used) maps exactly the product ids recorded in this pass to exactly the
  repository ids recorded with them; and every file of the certificate directory
  whose name is a stem of digits followed by \<^verbatim>\<open>.pem\<close>, with no record of that stem in
  this pass, is handed to \<^verbatim>\<open>g_remove\<close>.
\<close>

theorem sweep_ignores_persisted_database:
  assumes "2 \<le> CHUNK cfg" and "\<not> mkdir_fails w (PRODUCTDB_DIR cfg)"
    and "repos (initData h) = Some rs" and "trace w = []"
  shows "\<exists>w'. pluginHook ssl cfg (Some h) PLUGIN_HOOK_ID_CONTEXT_TRANSACTION
                (w\<lparr>productdb_file := persisted\<rparr>) = Some (1, w')
    \<and> (\<forall>entries stem.
          cert_dir w = Some entries \<and> stem @ ''.pem'' \<in> fst ` set entries
          \<and> (\<forall>c\<in>set stem. c \<in> set ''0123456789'')
          \<and> (\<forall>r. AddRepoId stem r \<notin> set (trace w'))
          \<longrightarrow> Remove (PRODUCT_CERT_DIR cfg @ stem @ ''.pem'') \<in> set (trace w'))
    \<and> (\<not> write_fails w \<longrightarrow>
          productdb_file w'
            = Some (\<lambda>p. if \<exists>r. AddRepoId p r \<in> set (trace w')
                        then Some {r. AddRepoId p r \<in> set (trace w')} else None))"
proof -
  define wp where "wp = w\<lparr>productdb_file := persisted\<rparr>"
  have wp: "\<not> mkdir_fails wp (PRODUCTDB_DIR cfg)" "trace wp = []" "cert_dir wp = cert_dir w"
      "write_fails wp = write_fails w"
    using assms by (simp_all add: wp_def)
  from pluginHook_pass[OF assms(1) wp(1) assms(3), of ssl]
  obtain db w3 new where p:
      "pluginHook ssl cfg (Some h) PLUGIN_HOOK_ID_CONTEXT_TRANSACTION wp
        = Some (1, writeRepoMap db (snd (removeUnusedProductCerts cfg db w3)))
    \<and> trace w3 = trace wp @ new
    \<and> (\<forall>x. Remove x \<notin> set new)
    \<and> (\<forall>p. hasProductId db p \<longleftrightarrow> (\<exists>r. AddRepoId p r \<in> set new))
    \<and> (\<forall>p r. r \<in> (case repoMap db p of None \<Rightarrow> {} | Some s \<Rightarrow> s) \<longleftrightarrow> AddRepoId p r \<in> set new)
    \<and> path db = PRODUCTDB_FILE cfg
    \<and> remove_fails w3 = remove_fails wp \<and> write_fails w3 = write_fails wp
    \<and> (\<forall>es. cert_dir wp = Some es \<longrightarrow> (\<exists>es'. cert_dir w3 = Some es' \<and> fst ` set es \<subseteq> fst ` set es'))"
    by (elim exE)
  have pa: "pluginHook ssl cfg (Some h) PLUGIN_HOOK_ID_CONTEXT_TRANSACTION wp
        = Some (1, writeRepoMap db (snd (removeUnusedProductCerts cfg db w3)))"
    and pt: "trace w3 = trace wp @ new"
    and ph: "\<forall>p. hasProductId db p \<longleftrightarrow> (\<exists>r. AddRepoId p r \<in> set new)"
    and pi: "\<forall>p r. r \<in> (case repoMap db p of None \<Rightarrow> {} | Some s \<Rightarrow> s) \<longleftrightarrow> AddRepoId p r \<in> set new"
    and pw: "write_fails w3 = write_fails wp"
    and pc: "\<forall>es. cert_dir wp = Some es \<longrightarrow> (\<exists>es'. cert_dir w3 = Some es' \<and> fst ` set es \<subseteq> fst ` set es')"
    using p by simp_all
  define names where "names = (case cert_dir w3 of None \<Rightarrow> [] | Some es \<Rightarrow> map fst es)"
  define gone where "gone = filter (\<lambda>n. \<exists>stem. n = stem @ ''.pem''
        \<and> (\<forall>c\<in>set stem. c \<in> set ''0123456789'') \<and> \<not> hasProductId db stem) names"
  define w4 where "w4 = snd (removeUnusedProductCerts cfg db w3)"
  define w' where "w' = writeRepoMap db w4"
  have t: "trace w' = new @ map (\<lambda>n. Remove (PRODUCT_CERT_DIR cfg @ n)) gone
                        @ [WriteProductDb (path db)]"
    using pt wp(2)
    by (simp add: w'_def w4_def writeRepoMap_effect removeUnusedProductCerts_trace
          gone_def names_def)
  have rec: "AddRepoId q r \<in> set (trace w') \<longleftrightarrow> AddRepoId q r \<in> set new" for q r
    using t by auto
  have a: "pluginHook ssl cfg (Some h) PLUGIN_HOOK_ID_CONTEXT_TRANSACTION
                (w\<lparr>productdb_file := persisted\<rparr>) = Some (1, w')"
    using pa by (simp add: w'_def w4_def wp_def)
  have b: "Remove (PRODUCT_CERT_DIR cfg @ stem @ ''.pem'') \<in> set (trace w')"
    if h: "cert_dir w = Some entries" "stem @ ''.pem'' \<in> fst ` set entries"
      "\<forall>c\<in>set stem. c \<in> set ''0123456789''" "\<forall>r. AddRepoId stem r \<notin> set (trace w')"
    for entries stem
  proof -
    obtain es' where e: "cert_dir w3 = Some es'" "fst ` set entries \<subseteq> fst ` set es'"
      using pc h(1) wp(3) by auto
    have n: "stem @ ''.pem'' \<in> set names" using e h(2) by (auto simp add: names_def)
    have "\<not> hasProductId db stem" using ph h(4) rec by blast
    then have "stem @ ''.pem'' \<in> set gone" using n h(3) by (simp add: gone_def)
    then show ?thesis using t by auto
  qed
  have c: "productdb_file w'
            = Some (\<lambda>p. if \<exists>r. AddRepoId p r \<in> set (trace w')
                        then Some {r. AddRepoId p r \<in> set (trace w')} else None)"
    if nf: "\<not> write_fails w"
  proof -
    have "write_fails w4 = write_fails w"
      using pw wp(4) by (simp add: w4_def removeUnusedProductCerts_write_fails)
    then have f: "productdb_file w' = Some (repoMap db)"
      using nf by (simp add: w'_def writeRepoMap_effect)
    have "repoMap db q = (if \<exists>r. AddRepoId q r \<in> set (trace w')
                        then Some {r. AddRepoId q r \<in> set (trace w')} else None)" for q
    proof (cases "repoMap db q")
      case None
      then have "\<not> hasProductId db q" by (simp add: hasProductId_def)
      then have "\<forall>r. AddRepoId q r \<notin> set new" using ph by blast
      then show ?thesis using None rec by simp
    next
      case (Some ids)
      then have "hasProductId db q" by (simp add: hasProductId_def)
      then have ex: "\<exists>r. AddRepoId q r \<in> set (trace w')" using ph rec by blast
      have "\<forall>r. r \<in> ids \<longleftrightarrow> AddRepoId q r \<in> set new"
        using pi[rule_format, of _ q] Some by simp
      then have "ids = {r. AddRepoId q r \<in> set (trace w')}" using rec by auto
      then show ?thesis using Some ex by simp
    qed
    then have "repoMap db = (\<lambda>p. if \<exists>r. AddRepoId p r \<in> set (trace w')
                        then Some {r. AddRepoId p r \<in> set (trace w')} else None)"
      by (rule ext)
    then show ?thesis using f by simp
  qed
  show ?thesis
  proof (intro exI[of _ w'] conjI allI impI)
    show "pluginHook ssl cfg (Some h) PLUGIN_HOOK_ID_CONTEXT_TRANSACTION
                (w\<lparr>productdb_file := persisted\<rparr>) = Some (1, w')"
      by (rule a)
  next
    fix entries stem
    assume "cert_dir w = Some entries \<and> stem @ ''.pem'' \<in> fst ` set entries
          \<and> (\<forall>c\<in>set stem. c \<in> set ''0123456789'')
          \<and> (\<forall>r. AddRepoId stem r \<notin> set (trace w'))"
    then show "Remove (PRODUCT_CERT_DIR cfg @ stem @ ''.pem'') \<in> set (trace w')"
      using b[of entries stem] by blast
  next
    assume "\<not> write_fails w"
    then show "productdb_file w'
            = Some (\<lambda>p. if \<exists>r. AddRepoId p r \<in> set (trace w')
                        then Some {r. AddRepoId p r \<in> set (trace w')} else None)"
      by (rule c)
  qed
qed


theorem sweep_ignores_persisted_database_witness:
  "2 \<le> CHUNK sample_macros
   \<and> \<not> mkdir_fails sample_world (PRODUCTDB_DIR sample_macros)
   \<and> repos (initData sample_handle) = Some [sample_repo_a, sample_repo_b]
   \<and> trace sample_world = []
   \<and> (''99'' @ ''.pem'', ''stale'') \<in> set (the (cert_dir sample_world))
   \<and> (\<exists>w'. pluginHook sample_ssl sample_macros (Some sample_handle)
               PLUGIN_HOOK_ID_CONTEXT_TRANSACTION
               (sample_world\<lparr>productdb_file := Some [''99'' \<mapsto> {''repo-z''}]\<rparr>) = Some (1, w')
          \<and> Remove (PRODUCT_CERT_DIR sample_macros @ ''99'' @ ''.pem'') \<in> set (trace w')
          \<and> productdb_file w' = Some [''69'' \<mapsto> {''repo-a''}])"
proof -
  have c: "2 \<le> CHUNK sample_macros" by (simp add: sample_macros_def)
  have m: "\<not> mkdir_fails sample_world (PRODUCTDB_DIR sample_macros)"
    by (simp add: sample_world_def)
  have r: "repos (initData sample_handle) = Some [sample_repo_a, sample_repo_b]"
    by (simp add: sample_handle_def sample_context_def)
  have t: "trace sample_world = []" by (simp add: sample_world_def)
  have d: "cert_dir sample_world = Some [(''69.pem'', ''old''), (''99.pem'', ''stale''),
                       (''abc.pem'', ''other''), (''README'', ''text'')]"
    by (simp add: sample_world_def)
  have same: "sample_world\<lparr>productdb_file := Some [''99'' \<mapsto> {''repo-z''}]\<rparr> = sample_world"
    by (simp add: sample_world_def)
  from sweep_ignores_persisted_database[OF c m r t, of sample_ssl
         "Some [''99'' \<mapsto> {''repo-z''}]"]
  obtain w' where w:
      "pluginHook sample_ssl sample_macros (Some sample_handle)
         PLUGIN_HOOK_ID_CONTEXT_TRANSACTION
         (sample_world\<lparr>productdb_file := Some [''99'' \<mapsto> {''repo-z''}]\<rparr>) = Some (1, w')"
      "\<forall>entries stem.
          cert_dir sample_world = Some entries \<and> stem @ ''.pem'' \<in> fst ` set entries
          \<and> (\<forall>c\<in>set stem. c \<in> set ''0123456789'')
          \<and> (\<forall>r. AddRepoId stem r \<notin> set (trace w'))
          \<longrightarrow> Remove (PRODUCT_CERT_DIR sample_macros @ stem @ ''.pem'') \<in> set (trace w')"
    by blast
  have tr: "trace w' = [Mkdir ''/var/lib/rhsm/'', GetRepos, Fetch ''repo-a'', Fetch ''repo-b'',
             QueryInstalled, QueryAvailable ''repo-a'', Visit ''repo-a'' ''foo-0:1.0-1.x86_64'',
             QueryAvailable ''repo-b'', Visit ''repo-b'' ''bar-0:2.0-1.noarch'',
             GzOpen ''/var/cache/dnf/repo-a/productid.gz'', Mkdir ''/etc/pki/product/'',
             WriteFile ''/etc/pki/product/69.pem'' ''PEM-69'', AddRepoId ''69'' ''repo-a'',
             Remove ''/etc/pki/product/99.pem'',
             WriteProductDb ''/var/lib/rhsm/productid.js'']"
    and pf: "productdb_file w' = Some [''69'' \<mapsto> {''repo-a''}]"
    using w(1) unfolding same sample_pass by auto
  have h: "cert_dir sample_world = Some [(''69.pem'', ''old''), (''99.pem'', ''stale''),
                       (''abc.pem'', ''other''), (''README'', ''text'')]
          \<and> ''99'' @ ''.pem'' \<in> fst ` set [(''69.pem'', ''old''), (''99.pem'', ''stale''),
                       (''abc.pem'', ''other''), (''README'', ''text'')]
          \<and> (\<forall>c\<in>set ''99''. c \<in> set ''0123456789'')
          \<and> (\<forall>r. AddRepoId ''99'' r \<notin> set (trace w'))"
    using d by (simp add: tr)
  have g: "Remove (PRODUCT_CERT_DIR sample_macros @ ''99'' @ ''.pem'') \<in> set (trace w')"
    using w(2)[rule_format, OF h] .
  have e: "(''99'' @ ''.pem'', ''stale'') \<in> set (the (cert_dir sample_world))"
    by (simp add: d)
  show ?thesis using c m r t e w(1) g pf by blast
qed

end
